theory Spec2Isabelle
  imports Complex_Main
begin

section \<open>Values, errors and promises\<close>

text \<open>
  The program is a GraphQL server written in TypeScript. Three of its parts are embedded
  here: the per-request \<^verbatim>\<open>context\<close> function of the server bootstrap, the
  resolver map of \<^verbatim>\<open>src/resolver/index.ts\<close>, and the where-clause builders of
  \<^verbatim>\<open>TransactionDS\<close>.

  Everything a resolver can throw is a value of \<open>error\<close>:
  \<open>AuthenticationError\<close> and \<open>ApolloError\<close> are the two classes the source
  constructs itself (with their message), \<open>TypeError\<close> is the runtime's error for a
  property read on \<^verbatim>\<open>null\<close> or \<^verbatim>\<open>undefined\<close>, and \<open>Thrown\<close> is
  anything a collaborator (database client, mail transport, JWT library) throws.
\<close>

datatype error =
    AuthenticationError string
  | ApolloError string
  | TypeError string
  | Thrown string

text \<open>
  Arguments and results whose GraphQL types are declared outside the embedded files are
  plain JavaScript values. An object is an association list with distinct keys.
  Numbers are reals (\<^verbatim>\<open>NaN\<close> and the infinities cannot come out of a GraphQL
  \<^verbatim>\<open>Int\<close> or \<^verbatim>\<open>Float\<close> and are left out).
\<close>

datatype jsval =
    JUndefined
  | JNull
  | JBool bool
  | JNum real
  | JStr string
  | JArr "jsval list"
  | JObj "(string \<times> jsval) list"

text \<open>JavaScript's truthiness, as \<^verbatim>\<open>if (x)\<close> and \<^verbatim>\<open>!x\<close> read it.\<close>

fun truthy :: "jsval \<Rightarrow> bool" where
  "truthy JUndefined = False"
| "truthy JNull = False"
| "truthy (JBool b) = b"
| "truthy (JNum x) = (x \<noteq> 0)"
| "truthy (JStr s) = (s \<noteq> [])"
| "truthy (JArr xs) = True"
| "truthy (JObj kvs) = True"

text \<open>
  \<^verbatim>\<open>v.name\<close>: a \<^verbatim>\<open>TypeError\<close> on \<^verbatim>\<open>null\<close> and \<^verbatim>\<open>undefined\<close>,
  the field's value on an object that has it, \<^verbatim>\<open>undefined\<close> otherwise (only own
  data fields are modelled).
\<close>

fun get_prop :: "jsval \<Rightarrow> string \<Rightarrow> error + jsval" where
  "get_prop JUndefined name = Inl (TypeError name)"
| "get_prop JNull name = Inl (TypeError name)"
| "get_prop (JObj kvs) name = (case map_of kvs name of None \<Rightarrow> Inr JUndefined | Some v \<Rightarrow> Inr v)"
| "get_prop v name = Inr JUndefined"

text \<open>\<^verbatim>\<open>v[0]\<close> and the optional chain \<^verbatim>\<open>v?.[0]\<close>.\<close>

fun index0 :: "jsval \<Rightarrow> error + jsval" where
  "index0 JUndefined = Inl (TypeError ''0'')"
| "index0 JNull = Inl (TypeError ''0'')"
| "index0 (JArr (x # xs)) = Inr x"
| "index0 v = Inr JUndefined"

fun opt_index0 :: "jsval \<Rightarrow> jsval" where
  "opt_index0 (JArr (x # xs)) = x"
| "opt_index0 v = JUndefined"

text \<open>
  The object spread \<^verbatim>\<open>{ ...args, name: v }\<close>: the fields of \<open>args\<close> with
  \<open>name\<close> set to \<open>v\<close> (spreading a value that is not an object contributes no
  field).
\<close>

fun set_field :: "(string \<times> jsval) list \<Rightarrow> string \<Rightarrow> jsval \<Rightarrow> (string \<times> jsval) list" where
  "set_field [] name v = [(name, v)]"
| "set_field ((k, w) # kvs) name v =
     (if k = name then (k, v) # kvs else (k, w) # set_field kvs name v)"

fun spread_with :: "jsval \<Rightarrow> string \<Rightarrow> jsval \<Rightarrow> jsval" where
  "spread_with (JObj kvs) name v = JObj (set_field kvs name v)"
| "spread_with other name v = JObj [(name, v)]"

text \<open>
  An \<^verbatim>\<open>async\<close> computation over the outside world \<open>'s\<close> (database rows, sent
  mail): it returns the value it resolves to or the error it rejects with, and the world
  it leaves behind. The world is returned in both cases, since what a resolver wrote
  before it threw stays written.
\<close>

type_synonym ('a, 's) promise = "'s \<Rightarrow> (error + 'a) \<times> 's"

definition resolve_p :: "'a \<Rightarrow> ('a, 's) promise" where
  "resolve_p x s = (Inr x, s)"

definition reject_p :: "error \<Rightarrow> ('a, 's) promise" where
  "reject_p e s = (Inl e, s)"

text \<open>\<^verbatim>\<open>const x = await m; f(x)\<close>: a rejection of \<open>m\<close> skips \<open>f\<close>.\<close>

definition then_p :: "('a, 's) promise \<Rightarrow> ('a \<Rightarrow> ('b, 's) promise) \<Rightarrow> ('b, 's) promise" where
  "then_p m f s = (case m s of (Inl e, s') \<Rightarrow> (Inl e, s') | (Inr x, s') \<Rightarrow> f x s')"

text \<open>A synchronous step that may throw, inside an \<^verbatim>\<open>async\<close> body.\<close>

definition of_result :: "error + 'a \<Rightarrow> ('a, 's) promise" where
  "of_result r s = (r, s)"

text \<open>
  \<^verbatim>\<open>await Promise.all([a, b])\<close>: both calls are made before anything is awaited,
  so both take effect whatever the other does; the result is the pair, or the rejection
  of the first one that rejected. The two effects are sequenced here (\<open>a\<close> first);
  the interleaving of the two is not modelled.
\<close>

definition promise_all2 :: "('a, 's) promise \<Rightarrow> ('b, 's) promise \<Rightarrow> ('a \<times> 'b, 's) promise" where
  "promise_all2 a b s =
     (case a s of (ra, s1) \<Rightarrow>
        (case b s1 of (rb, s2) \<Rightarrow>
           ((case ra of Inl e \<Rightarrow> Inl e
             | Inr x \<Rightarrow> (case rb of Inl e \<Rightarrow> Inl e | Inr y \<Rightarrow> Inr (x, y))), s2)))"

section \<open>Configuration, token records, data sources\<close>

text \<open>
  The options the embedded code reads with \<^verbatim>\<open>appConfig.get(...)\<close>. The two times
  are minutes. \<open>authorized_emails\<close> is \<open>None\<close> when the option is not set.
\<close>

record AppConfig =
  authorized_emails :: "string list option"
  signin_key_available_time :: int
  signin_token_available_time :: int
  signin_jwt_secret :: string
  signin_jwt_algorithm :: string

text \<open>
  A row of the sign-in key table, as the resolvers read it (\<^verbatim>\<open>record.email\<close>,
  \<^verbatim>\<open>record.createdAt\<close>). A \<^verbatim>\<open>Date\<close> is its time value: milliseconds since
  the epoch, an integer.
\<close>

record SignInKey =
  sk_key :: string
  sk_email :: string
  sk_createdAt :: int

text \<open>The payload the \<^verbatim>\<open>token\<close> resolver hands to \<^verbatim>\<open>jwt.sign\<close>.\<close>

record JwtPayload =
  jp_email :: string
  jp_exp :: int

text \<open>
  The request context the resolvers receive. The context function of the server builds
  \<open>cc_token\<close>, \<open>cc_tokenPayload\<close> and \<open>cc_appConfig\<close>; \<open>cc_isSignin\<close> is the
  property \<^verbatim>\<open>isSignin\<close> that \<^verbatim>\<open>requireAuth\<close> reads, \<open>None\<close> when the object
  has no such property (the read is then \<^verbatim>\<open>undefined\<close>).
\<close>

record CustomContext =
  cc_token :: string
  cc_tokenPayload :: "JwtPayload option"
  cc_isSignin :: "bool option"
  cc_appConfig :: AppConfig

text \<open>
  \<^verbatim>\<open>context.dataSources\<close>: the data-source objects, each method a computation over
  the world. Their classes (\<^verbatim>\<open>ReasonDS\<close>, \<^verbatim>\<open>TokenDS\<close>, \<^verbatim>\<open>GmailSmtp\<close>, the
  daily-spend source, and the \<^verbatim>\<open>TransactionDS\<close> revision these resolvers call) are
  not among the embedded files, so the resolvers take them as a parameter.
  \<open>reasonDs_createReason\<close> has the optional second argument of the source
  (\<open>JUndefined\<close> when the call passes one argument).
\<close>

record 's dataSources =
  reasonDs_getReasons :: "(jsval, 's) promise"
  reasonDs_getReasonById :: "jsval \<Rightarrow> (jsval, 's) promise"
  reasonDs_getReasonByText :: "jsval \<Rightarrow> (jsval, 's) promise"
  reasonDs_createReason :: "jsval \<Rightarrow> jsval \<Rightarrow> (jsval, 's) promise"
  reasonDs_updateReason :: "jsval \<Rightarrow> (jsval, 's) promise"
  transactionDs_getTransaction :: "jsval \<Rightarrow> (jsval, 's) promise"
  transactionDs_getTransactions :: "jsval \<Rightarrow> (jsval, 's) promise"
  transactionDs_createTransaction :: "jsval \<Rightarrow> (jsval, 's) promise"
  transactionDs_updateTransaction :: "jsval \<Rightarrow> (jsval, 's) promise"
  transactionDs_deleteTransaction :: "jsval \<Rightarrow> (jsval, 's) promise"
  dailySpendDs_read :: "(jsval, 's) promise"
  tokenDs_isRevoke :: "string \<Rightarrow> (bool, 's) promise"
  tokenDs_getLatestActiveRecord :: "string \<Rightarrow> int \<Rightarrow> (SignInKey option, 's) promise"
  tokenDs_getRecordByKey :: "string \<Rightarrow> (SignInKey option, 's) promise"
  tokenDs_create :: "string \<Rightarrow> string \<Rightarrow> (unit, 's) promise"
  smtpDs_send :: "string \<Rightarrow> string \<Rightarrow> (unit, 's) promise"

text \<open>
  What the code takes from its libraries and from the runtime during one request:
  \<^verbatim>\<open>emailValidator.validate\<close>, the key \<^verbatim>\<open>uuidv4()\<close> returns, the clock as
  \<^verbatim>\<open>new Date()\<close> and as \<^verbatim>\<open>Date.now()\<close> read it (milliseconds), \<^verbatim>\<open>jwt.sign\<close>
  (payload, secret, algorithm), \<^verbatim>\<open>jwt.verify\<close> (token, secret; it throws on a bad
  signature and on an expired token), the runtime's conversion of a value to a string
  inside a template literal, and the host's time zone. The time zone is ECMAScript's
  \<^verbatim>\<open>LocalTZA(t, isUTC)\<close>: the zone's offset from UTC in milliseconds, at the UTC
  time value \<open>t\<close> when \<open>isUTC\<close> is true, and for the local time value \<open>t\<close>
  when it is false. ECMAScript fixes what the second reading is where local time repeats
  or skips an hour: such a local time is read with the offset before the transition.
\<close>

record runtime =
  emailValidator_validate :: "string \<Rightarrow> bool"
  uuidv4 :: string
  new_Date :: int
  Date_now :: int
  jwt_sign :: "JwtPayload \<Rightarrow> string \<Rightarrow> string \<Rightarrow> string"
  jwt_verify :: "string \<Rightarrow> string \<Rightarrow> error + JwtPayload"
  template_toString :: "jsval \<Rightarrow> string"
  LocalTZA :: "int \<Rightarrow> bool \<Rightarrow> int"

section \<open>The request context\<close>

text \<open>
  \<^verbatim>\<open>String.prototype.replace(pattern, replacement)\<close> with a string pattern: the
  first occurrence of the pattern, wherever it stands, is replaced, and a string without
  the pattern is returned as it is. (The replacement of the source is the empty string,
  so the \<^verbatim>\<open>$\<close> patterns of a replacement string play no part.)
\<close>

fun replace :: "string \<Rightarrow> string \<Rightarrow> string \<Rightarrow> string" where
  "replace pat rep [] = (if pat = [] then rep else [])"
| "replace pat rep (c # cs) =
     (if take (length pat) (c # cs) = pat then rep @ drop (length pat) (c # cs)
      else c # replace pat rep cs)"

text \<open>
  The body of the \<^verbatim>\<open>try\<close> block of the context function: the value assigned to
  \<^verbatim>\<open>tokenPayload\<close> (which starts as \<^verbatim>\<open>null\<close>, here \<open>None\<close>), or the error
  thrown by the revocation check or by \<^verbatim>\<open>jwt.verify\<close>.
\<close>

definition context_try :: "runtime \<Rightarrow> 's dataSources \<Rightarrow> AppConfig \<Rightarrow> string \<Rightarrow> (JwtPayload option, 's) promise" where
  "context_try rt ds Config token =
     then_p (tokenDs_isRevoke ds token) (\<lambda>revoked.
       if \<not> revoked then
         (if token \<noteq> [] then
            then_p (of_result (jwt_verify rt token (signin_jwt_secret Config)))
              (\<lambda>payload. resolve_p (Some payload))
          else resolve_p None)
       else resolve_p None)"

text \<open>
  The first statement of the context function:
  \<^verbatim>\<open>(req.headers.authorization || '').replace('Bearer ', '')\<close>. The header is
  \<open>None\<close> when the request has none.
\<close>

definition bearer_token :: "string option \<Rightarrow> string" where
  "bearer_token authorization =
     replace ''Bearer '' [] (case authorization of None \<Rightarrow> [] | Some h \<Rightarrow> h)"

text \<open>
  The context function of the server, run once per request on the value of the
  \<^verbatim>\<open>Authorization\<close> header. The \<^verbatim>\<open>catch\<close>
  logs the error and goes on with \<^verbatim>\<open>tokenPayload\<close> still \<^verbatim>\<open>null\<close>. The object
  returned is \<^verbatim>\<open>{ token, tokenPayload, appConfig: Config }\<close>: it has no
  \<^verbatim>\<open>isSignin\<close> property. The third component of the result is what was logged.
  (The name \<open>context\<close> is reserved in Isabelle, hence \<open>context_fn\<close>.)
\<close>

definition context_fn :: "runtime \<Rightarrow> 's dataSources \<Rightarrow> AppConfig \<Rightarrow> string option \<Rightarrow> 's \<Rightarrow> (error + CustomContext) \<times> 's \<times> error list" where
  "context_fn rt ds Config authorization s =
     (let token = bearer_token authorization
      in case context_try rt ds Config token s of
           (Inl e, s') \<Rightarrow>
             (Inr \<lparr>cc_token = token, cc_tokenPayload = None, cc_isSignin = None,
                   cc_appConfig = Config\<rparr>, s', [e])
         | (Inr tokenPayload, s') \<Rightarrow>
             (Inr \<lparr>cc_token = token, cc_tokenPayload = tokenPayload, cc_isSignin = None,
                   cc_appConfig = Config\<rparr>, s', []))"

section \<open>The resolvers\<close>

text \<open>
  \<^verbatim>\<open>requireAuth\<close>: throws unless the context's \<^verbatim>\<open>isSignin\<close> is truthy. An absent
  property reads as \<^verbatim>\<open>undefined\<close>, which is falsy.
\<close>

definition requireAuth :: "CustomContext \<Rightarrow> error + unit" where
  "requireAuth ctx =
     (let isSignin = cc_isSignin ctx
      in if \<not> (case isSignin of None \<Rightarrow> False | Some b \<Rightarrow> b)
         then Inl (AuthenticationError ''sign-in to continue'')
         else Inr ())"

definition getReasons :: "'s dataSources \<Rightarrow> CustomContext \<Rightarrow> (jsval, 's) promise" where
  "getReasons ds ctx =
     then_p (of_result (requireAuth ctx)) (\<lambda>_. reasonDs_getReasons ds)"

definition getTransaction :: "'s dataSources \<Rightarrow> jsval \<Rightarrow> CustomContext \<Rightarrow> (jsval, 's) promise" where
  "getTransaction ds args ctx =
     then_p (of_result (requireAuth ctx)) (\<lambda>_. transactionDs_getTransaction ds args)"

definition getTransactions :: "'s dataSources \<Rightarrow> jsval \<Rightarrow> CustomContext \<Rightarrow> (jsval, 's) promise" where
  "getTransactions ds args ctx =
     then_p (of_result (requireAuth ctx)) (\<lambda>_. transactionDs_getTransactions ds args)"

definition getDailyBalance :: "'s dataSources \<Rightarrow> CustomContext \<Rightarrow> (jsval, 's) promise" where
  "getDailyBalance ds ctx =
     then_p (of_result (requireAuth ctx)) (\<lambda>_. dailySpendDs_read ds)"

text \<open>The field resolver \<^verbatim>\<open>Transaction.reason\<close>; \<open>parent\<close> is the transaction
  the source calls \<^verbatim>\<open>trans\<close>.\<close>

definition Transaction_reason :: "runtime \<Rightarrow> 's dataSources \<Rightarrow> jsval \<Rightarrow> CustomContext \<Rightarrow> (jsval, 's) promise" where
  "Transaction_reason rt ds parent ctx =
     then_p (of_result (requireAuth ctx)) (\<lambda>_.
     then_p (of_result (get_prop parent ''reasonId'')) (\<lambda>reasonId.
     then_p (reasonDs_getReasonById ds reasonId) (\<lambda>reason.
       if \<not> truthy reason then
         reject_p (ApolloError (''Reason with ID = '' @ template_toString rt reasonId
                                  @ '' doesn't exist.''))
       else resolve_p reason)))"

definition createTransaction :: "'s dataSources \<Rightarrow> jsval \<Rightarrow> CustomContext \<Rightarrow> (jsval, 's) promise" where
  "createTransaction ds args ctx =
     then_p (of_result (requireAuth ctx)) (\<lambda>_.
     then_p (of_result (get_prop args ''reasonText'')) (\<lambda>reasonText.
     then_p (reasonDs_getReasonByText ds reasonText) (\<lambda>createdReason.
       if truthy createdReason then
         then_p (of_result (get_prop createdReason ''id'')) (\<lambda>reasonId.
           transactionDs_createTransaction ds (spread_with args ''reasonId'' reasonId))
       else
         then_p (of_result (get_prop args ''amount'')) (\<lambda>amount.
         then_p (of_result (get_prop args ''date'')) (\<lambda>date.
         then_p (of_result (get_prop args ''note'')) (\<lambda>note.
         then_p (reasonDs_createReason ds (JObj [(''text'', reasonText)])
                   (JArr [JObj [(''amount'', amount), (''date'', date), (''note'', note)]]))
           (\<lambda>reason.
         then_p (of_result (get_prop reason ''transactions'')) (\<lambda>transactions.
           if \<not> truthy (opt_index0 transactions) then
             reject_p (ApolloError ''Couldn't create transaction'')
           else of_result (index0 transactions)))))))))"

definition updateTransaction :: "'s dataSources \<Rightarrow> jsval \<Rightarrow> CustomContext \<Rightarrow> (jsval, 's) promise" where
  "updateTransaction ds args ctx =
     then_p (of_result (requireAuth ctx)) (\<lambda>_.
     then_p (of_result (get_prop args ''reasonText'')) (\<lambda>reasonText.
     then_p
       (if truthy reasonText then
          then_p (reasonDs_getReasonByText ds reasonText) (\<lambda>found.
          then_p
            (if \<not> truthy found
             then reasonDs_createReason ds (JObj [(''text'', reasonText)]) JUndefined
             else resolve_p found)
            (\<lambda>reason. of_result (get_prop reason ''id'')))
        else resolve_p JUndefined)
       (\<lambda>reasonId. transactionDs_updateTransaction ds (spread_with args ''reasonId'' reasonId))))"

definition deleteTransaction :: "'s dataSources \<Rightarrow> jsval \<Rightarrow> CustomContext \<Rightarrow> (jsval, 's) promise" where
  "deleteTransaction ds args ctx =
     then_p (of_result (requireAuth ctx)) (\<lambda>_.
     then_p (transactionDs_deleteTransaction ds args) (\<lambda>_. resolve_p (JBool True)))"

definition createReason :: "'s dataSources \<Rightarrow> jsval \<Rightarrow> CustomContext \<Rightarrow> (jsval, 's) promise" where
  "createReason ds args ctx =
     then_p (of_result (requireAuth ctx)) (\<lambda>_. reasonDs_createReason ds args JUndefined)"

definition updateReason :: "'s dataSources \<Rightarrow> jsval \<Rightarrow> CustomContext \<Rightarrow> (jsval, 's) promise" where
  "updateReason ds args ctx =
     then_p (of_result (requireAuth ctx)) (\<lambda>_. reasonDs_updateReason ds args)"

text \<open>
  The date arithmetic of ECMAScript that \<^verbatim>\<open>getMinutes\<close> and \<^verbatim>\<open>setMinutes\<close>
  are defined by. Time values are integers (milliseconds); \<open>div\<close> and \<open>mod\<close> on
  \<open>int\<close> are the floor and the non-negative modulo ECMAScript uses.
\<close>

definition Day :: "int \<Rightarrow> int" where
  "Day t = t div 86400000"

definition HourFromTime :: "int \<Rightarrow> int" where
  "HourFromTime t = (t div 3600000) mod 24"

definition MinFromTime :: "int \<Rightarrow> int" where
  "MinFromTime t = (t div 60000) mod 60"

definition SecFromTime :: "int \<Rightarrow> int" where
  "SecFromTime t = (t div 1000) mod 60"

definition msFromTime :: "int \<Rightarrow> int" where
  "msFromTime t = t mod 1000"

definition MakeTime :: "int \<Rightarrow> int \<Rightarrow> int \<Rightarrow> int \<Rightarrow> int" where
  "MakeTime hour mn sec ms = hour * 3600000 + mn * 60000 + sec * 1000 + ms"

definition MakeDate :: "int \<Rightarrow> int \<Rightarrow> int" where
  "MakeDate day time = day * 86400000 + time"

text \<open>\<^verbatim>\<open>LocalTime(t)\<close> and \<^verbatim>\<open>UTC(t)\<close> of ECMAScript, in the host's zone.\<close>

definition LocalTime :: "runtime \<Rightarrow> int \<Rightarrow> int" where
  "LocalTime rt t = t + LocalTZA rt t True"

definition UTC :: "runtime \<Rightarrow> int \<Rightarrow> int" where
  "UTC rt t = t - LocalTZA rt t False"

text \<open>
  \<^verbatim>\<open>Date.prototype.getMinutes\<close> and \<^verbatim>\<open>Date.prototype.setMinutes\<close> (with one
  argument) on a \<^verbatim>\<open>Date\<close> whose time value is \<open>t\<close>; \<open>Date_setMinutes\<close>
  returns the new time value. Both work on the fields of the local time. (The final
  \<^verbatim>\<open>TimeClip\<close> only rejects time values beyond 8.64e15 and is left out.)
\<close>

definition Date_getMinutes :: "runtime \<Rightarrow> int \<Rightarrow> int" where
  "Date_getMinutes rt t = MinFromTime (LocalTime rt t)"

definition Date_setMinutes :: "runtime \<Rightarrow> int \<Rightarrow> int \<Rightarrow> int" where
  "Date_setMinutes rt t m =
     (let local = LocalTime rt t
      in UTC rt (MakeDate (Day local)
                   (MakeTime (HourFromTime local) m (SecFromTime local) (msFromTime local))))"

text \<open>
  \<^verbatim>\<open>d.setMinutes(d.getMinutes() - n)\<close> on a \<^verbatim>\<open>Date\<close> with time value
  \<open>t\<close>: the statement both \<^verbatim>\<open>signin\<close> and \<^verbatim>\<open>token\<close> compute their
  cutoff with. \<open>n\<close> is the configured number of minutes, an integer.
\<close>

definition minutes_before :: "runtime \<Rightarrow> int \<Rightarrow> int \<Rightarrow> int" where
  "minutes_before rt t n = Date_setMinutes rt t (Date_getMinutes rt t - n)"

text \<open>
  \<^verbatim>\<open>Math.round(ms / 1000)\<close> for an integer \<open>ms\<close>: the nearest integer, a half
  rounded up.
\<close>

definition round_seconds :: "int \<Rightarrow> int" where
  "round_seconds ms = (ms + 500) div 1000"

text \<open>
  The mutation \<^verbatim>\<open>signin\<close>. Its four results are ordinary return values. It does
  not call \<^verbatim>\<open>requireAuth\<close>.
\<close>

definition signin :: "runtime \<Rightarrow> 's dataSources \<Rightarrow> string \<Rightarrow> CustomContext \<Rightarrow> (jsval, 's) promise" where
  "signin rt ds email ctx =
     (if \<not> emailValidator_validate rt email then resolve_p (JStr ''invalid email address'')
      else
        let appConfig = cc_appConfig ctx in
        if (case authorized_emails appConfig of None \<Rightarrow> False | Some l \<Rightarrow> length l \<noteq> 0)
           \<and> (case authorized_emails appConfig of None \<Rightarrow> True | Some l \<Rightarrow> email \<notin> set l)
        then resolve_p (JStr ''the email address isn't allowed to sign in'')
        else
          let lastSeen = minutes_before rt (new_Date rt) (signin_key_available_time appConfig) in
          then_p (tokenDs_getLatestActiveRecord ds email lastSeen) (\<lambda>record.
            if record \<noteq> None then
              resolve_p (JStr ''an instruction has been sent to the email address, please follow that email to sign in.'')
            else
              let key = uuidv4 rt in
              then_p (promise_all2 (tokenDs_create ds key email) (smtpDs_send ds email key))
                (\<lambda>_. resolve_p (JStr ''sent''))))"

text \<open>
  The mutation \<^verbatim>\<open>token\<close>. \<^verbatim>\<open>!record || record.createdAt <= expire\<close> throws the
  \<^verbatim>\<open>ApolloError\<close>; otherwise the signed token is returned. It does not call
  \<^verbatim>\<open>requireAuth\<close>.
\<close>

definition token :: "runtime \<Rightarrow> 's dataSources \<Rightarrow> string \<Rightarrow> CustomContext \<Rightarrow> (jsval, 's) promise" where
  "token rt ds key ctx =
     (let appConfig = cc_appConfig ctx in
      then_p (tokenDs_getRecordByKey ds key) (\<lambda>record.
        let expire = minutes_before rt (new_Date rt) (signin_key_available_time appConfig) in
        case record of
          None \<Rightarrow> reject_p (ApolloError ''Sign in key didn't exist or expired.'')
        | Some r \<Rightarrow>
            if sk_createdAt r \<le> expire then
              reject_p (ApolloError ''Sign in key didn't exist or expired.'')
            else
              let expiresIn = round_seconds (Date_now rt) + signin_token_available_time appConfig * 60
              in resolve_p (JStr (jwt_sign rt \<lparr>jp_email = sk_email r, jp_exp = expiresIn\<rparr>
                                    (signin_jwt_secret appConfig) (signin_jwt_algorithm appConfig)))))"

text \<open>
  The resolver map: one constructor per entry of \<^verbatim>\<open>resolvers\<close>, with the arguments
  the entry reads (the parent object for \<^verbatim>\<open>Transaction.reason\<close>).
\<close>

datatype operation =
    Query_getReasons
  | Query_getTransaction jsval
  | Query_getTransactions jsval
  | Query_getDailyBalance
  | Transaction_dot_reason jsval
  | Mutation_createTransaction jsval
  | Mutation_updateTransaction jsval
  | Mutation_deleteTransaction jsval
  | Mutation_createReason jsval
  | Mutation_updateReason jsval
  | Mutation_signin string
  | Mutation_token string

fun resolvers :: "runtime \<Rightarrow> 's dataSources \<Rightarrow> operation \<Rightarrow> CustomContext \<Rightarrow> (jsval, 's) promise" where
  "resolvers rt ds Query_getReasons ctx = getReasons ds ctx"
| "resolvers rt ds (Query_getTransaction args) ctx = getTransaction ds args ctx"
| "resolvers rt ds (Query_getTransactions args) ctx = getTransactions ds args ctx"
| "resolvers rt ds Query_getDailyBalance ctx = getDailyBalance ds ctx"
| "resolvers rt ds (Transaction_dot_reason parent) ctx = Transaction_reason rt ds parent ctx"
| "resolvers rt ds (Mutation_createTransaction args) ctx = createTransaction ds args ctx"
| "resolvers rt ds (Mutation_updateTransaction args) ctx = updateTransaction ds args ctx"
| "resolvers rt ds (Mutation_deleteTransaction args) ctx = deleteTransaction ds args ctx"
| "resolvers rt ds (Mutation_createReason args) ctx = createReason ds args ctx"
| "resolvers rt ds (Mutation_updateReason args) ctx = updateReason ds args ctx"
| "resolvers rt ds (Mutation_signin email) ctx = signin rt ds email ctx"
| "resolvers rt ds (Mutation_token key) ctx = token rt ds key ctx"

text \<open>
  The operations that go to the reason, transaction or daily-spend data source: all but
  the two sign-in mutations.
\<close>

fun touches_ledger_data :: "operation \<Rightarrow> bool" where
  "touches_ledger_data (Mutation_signin email) = False"
| "touches_ledger_data (Mutation_token key) = False"
| "touches_ledger_data other = True"

section \<open>The transaction data source: where clauses\<close>

text \<open>
  The Prisma filters the two methods build. \<^verbatim>\<open>where.date\<close> and
  \<^verbatim>\<open>where.amount\<close> are absent (\<open>None\<close>) until a bound is set; a bound is a
  field of the filter object, absent until assigned.
\<close>

record 'a range_filter =
  gte :: "'a option"
  lte :: "'a option"

record TransactionWhereInput =
  where_date :: "int range_filter option"
  where_amount :: "real range_filter option"
  where_reasonId :: "real option"

definition empty_where :: TransactionWhereInput where
  "empty_where = \<lparr>where_date = None, where_amount = None, where_reasonId = None\<rparr>"

text \<open>\<^verbatim>\<open>f || {}\<close> on a filter that may be absent.\<close>

definition or_empty :: "'a range_filter option \<Rightarrow> 'a range_filter" where
  "or_empty f = (case f of None \<Rightarrow> \<lparr>gte = None, lte = None\<rparr> | Some g \<Rightarrow> g)"

text \<open>
  The five \<^verbatim>\<open>if\<close> statements both methods start with. A \<^verbatim>\<open>Maybe<T>\<close> argument
  is \<open>None\<close> for \<^verbatim>\<open>null\<close> and \<^verbatim>\<open>undefined\<close>. A \<^verbatim>\<open>Date\<close> is truthy
  whenever it is present; a number is truthy when it is present and not zero.
\<close>

definition build_where :: "int option \<Rightarrow> int option \<Rightarrow> real option \<Rightarrow> real option \<Rightarrow> real option \<Rightarrow> TransactionWhereInput" where
  "build_where fromDate toDate fromAmount toAmount reason =
     (let w0 = empty_where;
          w1 = (case fromDate of None \<Rightarrow> w0
                | Some d \<Rightarrow> w0\<lparr>where_date := Some ((or_empty (where_date w0))\<lparr>gte := Some d\<rparr>)\<rparr>);
          w2 = (case toDate of None \<Rightarrow> w1
                | Some d \<Rightarrow> w1\<lparr>where_date := Some ((or_empty (where_date w1))\<lparr>lte := Some d\<rparr>)\<rparr>);
          w3 = (case fromAmount of None \<Rightarrow> w2
                | Some a \<Rightarrow> if a \<noteq> 0
                    then w2\<lparr>where_amount := Some ((or_empty (where_amount w2))\<lparr>gte := Some a\<rparr>)\<rparr>
                    else w2);
          w4 = (case toAmount of None \<Rightarrow> w3
                | Some a \<Rightarrow> if a \<noteq> 0
                    then w3\<lparr>where_amount := Some ((or_empty (where_amount w3))\<lparr>lte := Some a\<rparr>)\<rparr>
                    else w3);
          w5 = (case reason of None \<Rightarrow> w4
                | Some r \<Rightarrow> if r \<noteq> 0 then w4\<lparr>where_reasonId := Some r\<rparr> else w4)
      in w5)"

text \<open>
  The argument of \<^verbatim>\<open>findMany\<close>. \<^verbatim>\<open>orderBy\<close> and \<^verbatim>\<open>select\<close> are the same
  in every call: descending by date, and the six selected columns.
\<close>

datatype sort_order = Asc | Desc

record TransactionFindManyArgs =
  q_skip :: real
  q_take :: real
  q_where :: TransactionWhereInput
  q_orderBy :: "(string \<times> sort_order) list"
  q_select :: "string list"

text \<open>
  \<^verbatim>\<open>TransactionDS.getTransactions\<close> and \<^verbatim>\<open>countTransactions\<close>; the Prisma
  client's \<^verbatim>\<open>transaction.findMany\<close> and \<^verbatim>\<open>transaction.count\<close> are parameters.
\<close>

definition TransactionDS_getTransactions ::
  "(TransactionFindManyArgs \<Rightarrow> 'r) \<Rightarrow> int option \<Rightarrow> int option \<Rightarrow> real option \<Rightarrow> real option \<Rightarrow> real option \<Rightarrow> real \<Rightarrow> real \<Rightarrow> 'r" where
  "TransactionDS_getTransactions findMany fromDate toDate fromAmount toAmount reason offset limit =
     (let where_clause = build_where fromDate toDate fromAmount toAmount reason;
          query = \<lparr>q_skip = offset, q_take = limit, q_where = where_clause,
                   q_orderBy = [(''date'', Desc)],
                   q_select = [''id'', ''amount'', ''date'', ''description'', ''updatedAt'',
                               ''reasonId'']\<rparr>
      in findMany query)"

definition TransactionDS_countTransactions ::
  "(TransactionWhereInput \<Rightarrow> 'r) \<Rightarrow> int option \<Rightarrow> int option \<Rightarrow> real option \<Rightarrow> real option \<Rightarrow> real option \<Rightarrow> 'r" where
  "TransactionDS_countTransactions count_rows fromDate toDate fromAmount toAmount reason =
     (let where_clause = build_where fromDate toDate fromAmount toAmount reason
      in count_rows where_clause)"

section \<open>The token store and the mail sender\<close>

text \<open>
  The classes \<^verbatim>\<open>TokenDS\<close> (\<^verbatim>\<open>@datasource/token\<close>) and \<^verbatim>\<open>GmailSmtp\<close>
  (\<^verbatim>\<open>@datasource/smtp\<close>) are imported by the server and called by the resolvers,
  but their files are not among the sources. This section models them from the spec, over
  a world made of the sign-in key table, the revoked tokens, and the mail that was handed
  to the mail sender (address and key).
\<close>

record world =
  tokens :: "SignInKey list"
  revoked :: "string list"
  outbox :: "(string \<times> string) list"

text \<open>
  Modelled from the spec: \<^verbatim>\<open>TokenDS.create\<close> is missing. Spec, section 4.1, step 4:
  "persist a SignInKey record {key, email, createdAt=now}". \<open>now\<close> is the clock the
  store stamps the new row with.
\<close>

definition TokenDS_create :: "int \<Rightarrow> string \<Rightarrow> string \<Rightarrow> (unit, world) promise" where
  "TokenDS_create now key email w =
     (Inr (), w\<lparr>tokens := tokens w @ [\<lparr>sk_key = key, sk_email = email, sk_createdAt = now\<rparr>]\<rparr>)"

text \<open>
  Modelled from the spec: \<^verbatim>\<open>TokenDS.getRecordByKey\<close> is missing. Spec, section 6:
  "getRecordByKey(key) -> {email, createdAt} | null"; section 4.1: "Look up the SignInKey
  record by key"; section 3: the key is unique.
\<close>

definition TokenDS_getRecordByKey :: "string \<Rightarrow> (SignInKey option, world) promise" where
  "TokenDS_getRecordByKey key w = (Inr (find (\<lambda>r. sk_key r = key) (tokens w)), w)"

text \<open>
  Modelled from the spec: the choice of "the most recent" row by
  \<^verbatim>\<open>TokenDS.getLatestActiveRecord\<close>, which is missing: the row with the greatest
  \<open>sk_createdAt\<close> (of several such rows, the first of the list).
\<close>

fun latest :: "SignInKey list \<Rightarrow> SignInKey option" where
  "latest [] = None"
| "latest (r # rs) =
     (case latest rs of
        None \<Rightarrow> Some r
      | Some m \<Rightarrow> if sk_createdAt r < sk_createdAt m then Some m else Some r)"

text \<open>
  Modelled from the spec: \<^verbatim>\<open>TokenDS.getLatestActiveRecord\<close> is missing. Spec,
  section 4.1, step 3: "Query the Token Store for the most recent SignInKey for email
  with createdAt >= cutoff (i.e., still within its validity window)"; section 6:
  "getLatestActiveRecord(email, sinceCutoff) -> record | null".
\<close>

definition TokenDS_getLatestActiveRecord :: "string \<Rightarrow> int \<Rightarrow> (SignInKey option, world) promise" where
  "TokenDS_getLatestActiveRecord email lastSeen w =
     (Inr (latest (filter (\<lambda>r. sk_email r = email \<and> lastSeen \<le> sk_createdAt r) (tokens w))), w)"

text \<open>
  Modelled from the spec: \<^verbatim>\<open>TokenDS.isRevoke\<close> is missing. Spec, section 6:
  "isRevoked(token) -> bool"; section 3: "any token whose raw value matches a revocation
  record must be treated as invalid".
\<close>

definition TokenDS_isRevoke :: "string \<Rightarrow> (bool, world) promise" where
  "TokenDS_isRevoke t w = (Inr (t \<in> set (revoked w)), w)"

text \<open>
  Modelled from the spec: \<^verbatim>\<open>GmailSmtp.send\<close> is missing. Spec, section 6: "Mail
  Sender: send(email, key)"; section 4.1, step 4: "dispatch mail containing the key to
  email".
\<close>

definition GmailSmtp_send :: "string \<Rightarrow> string \<Rightarrow> (unit, world) promise" where
  "GmailSmtp_send email key w = (Inr (), w\<lparr>outbox := outbox w @ [(email, key)]\<rparr>)"

text \<open>
  Modelled from the spec: the data sources over this world, with the five operations
  above. The reason, transaction and daily-spend sources are missing too, and the spec
  leaves them out of its scope (section 1): here they keep no data, their reads find
  nothing and their writes reject. The theorems about the guarded operations hold for
  every data source; these stand in only where a closed instance needs one.
\<close>

definition store_dataSources :: "int \<Rightarrow> world dataSources" where
  "store_dataSources now =
     \<lparr>reasonDs_getReasons = resolve_p (JArr []),
      reasonDs_getReasonById = (\<lambda>i. resolve_p JNull),
      reasonDs_getReasonByText = (\<lambda>t. resolve_p JNull),
      reasonDs_createReason = (\<lambda>a ts. reject_p (Thrown ''no ledger tables'')),
      reasonDs_updateReason = (\<lambda>a. reject_p (Thrown ''no ledger tables'')),
      transactionDs_getTransaction = (\<lambda>a. resolve_p JNull),
      transactionDs_getTransactions = (\<lambda>a. resolve_p (JArr [])),
      transactionDs_createTransaction = (\<lambda>a. reject_p (Thrown ''no ledger tables'')),
      transactionDs_updateTransaction = (\<lambda>a. reject_p (Thrown ''no ledger tables'')),
      transactionDs_deleteTransaction = (\<lambda>a. reject_p (Thrown ''no ledger tables'')),
      dailySpendDs_read = resolve_p (JArr []),
      tokenDs_isRevoke = TokenDS_isRevoke,
      tokenDs_getLatestActiveRecord = TokenDS_getLatestActiveRecord,
      tokenDs_getRecordByKey = TokenDS_getRecordByKey,
      tokenDs_create = TokenDS_create now,
      smtpDs_send = GmailSmtp_send\<rparr>"

text \<open>Whether \<open>pat\<close> occurs in \<open>s\<close> as a contiguous substring.\<close>

fun occurs_in :: "string \<Rightarrow> string \<Rightarrow> bool" where
  "occurs_in pat [] = (pat = [])"
| "occurs_in pat (c # cs) = (take (length pat) (c # cs) = pat \<or> occurs_in pat cs)"

section \<open>A concrete configuration, runtime and world\<close>

text \<open>
  The values the closed theorems below are evaluated at. The clock stands at
  1 700 000 600 000 ms. Keys stay redeemable for 10 minutes, tokens are valid for 30. The
  validator stands in for \<^verbatim>\<open>email-validator\<close> (it only asks for an \<^verbatim>\<open>@\<close>,
  which is enough to reject the malformed address used below); the signer and verifier
  stand in for \<^verbatim>\<open>jsonwebtoken\<close>: the verifier accepts exactly one token string.
  The host's zone is UTC.
\<close>

definition example_config :: AppConfig where
  "example_config =
     \<lparr>authorized_emails = Some [''alice@example.org''],
      signin_key_available_time = 10,
      signin_token_available_time = 30,
      signin_jwt_secret = ''s3cret'',
      signin_jwt_algorithm = ''HS256''\<rparr>"

definition example_runtime :: runtime where
  "example_runtime =
     \<lparr>emailValidator_validate = (\<lambda>s. CHR ''@'' \<in> set s),
      uuidv4 = ''0b6f7a3e-key'',
      new_Date = 1700000600000,
      Date_now = 1700000600600,
      jwt_sign = (\<lambda>p secret alg. alg @ ''.'' @ jp_email p @ ''.'' @ secret),
      jwt_verify = (\<lambda>t secret.
         if t = ''HS256.alice@example.org.s3cret'' \<and> secret = ''s3cret''
         then Inr \<lparr>jp_email = ''alice@example.org'', jp_exp = 1700002401\<rparr>
         else Inl (Thrown ''JsonWebTokenError'')),
      template_toString = (\<lambda>v. ''?''),
      LocalTZA = (\<lambda>t isUTC. 0)\<rparr>"

text \<open>
  A world with three keys: one for alice created one minute before the clock, one for
  eve created exactly ten minutes before it, one for eve created two minutes before it.
  One token is revoked.
\<close>

definition example_world :: world where
  "example_world =
     \<lparr>tokens =
        [\<lparr>sk_key = ''key-alice'', sk_email = ''alice@example.org'', sk_createdAt = 1700000540000\<rparr>,
         \<lparr>sk_key = ''key-old'', sk_email = ''eve@example.org'', sk_createdAt = 1700000000000\<rparr>,
         \<lparr>sk_key = ''key-eve'', sk_email = ''eve@example.org'', sk_createdAt = 1700000480000\<rparr>],
      revoked = [''HS256.alice@example.org.s3cret''],
      outbox = []\<rparr>"

definition example_context :: CustomContext where
  "example_context =
     \<lparr>cc_token = [], cc_tokenPayload = None, cc_isSignin = None, cc_appConfig = example_config\<rparr>"

text \<open>
  The zone's offset that takes the clock \<open>t\<close> to local time is also the offset that
  takes the local time \<open>n\<close> minutes earlier back: no change of the zone's offset
  comes into the computation of the cutoff. It holds at every clock in a zone whose
  offset never changes.
\<close>

definition same_offset :: "runtime \<Rightarrow> int \<Rightarrow> int \<Rightarrow> bool" where
  "same_offset rt t n \<longleftrightarrow> LocalTZA rt (LocalTime rt t - n * 60000) False = LocalTZA rt t True"

text \<open>
  The zone \<^verbatim>\<open>America/New_York\<close> over the winter of 2023/24: daylight time (UTC-4)
  until 2023-11-05 06:00 UTC, standard time (UTC-5) until 2024-03-10 07:00 UTC, daylight
  time after it. For a local time value the hour that repeats in November and the hour
  that is skipped in March are read with the offset before the transition.
\<close>

definition new_york_LocalTZA :: "int \<Rightarrow> bool \<Rightarrow> int" where
  "new_york_LocalTZA t isUTC =
     (if isUTC then
        (if t < 1699164000000 then - 14400000
         else if t < 1710054000000 then - 18000000
         else - 14400000)
      else
        (if t < 1699164000000 - 14400000 then - 14400000
         else if t < 1710054000000 - 14400000 then - 18000000
         else - 14400000))"

text \<open>
  A host in that zone at 2023-11-05 06:30 UTC, half an hour after the clocks went back,
  with a key created 60 minutes earlier; and at 2024-03-10 07:05 UTC, five minutes after
  the clocks went forward, with a key created one minute earlier. Both keys are alice's.
\<close>

definition autumn_runtime :: runtime where
  "autumn_runtime =
     example_runtime\<lparr>new_Date := 1699165800000, Date_now := 1699165800000,
                      LocalTZA := new_york_LocalTZA\<rparr>"

definition autumn_world :: world where
  "autumn_world =
     \<lparr>tokens = [\<lparr>sk_key = ''key-hour-old'', sk_email = ''alice@example.org'',
                  sk_createdAt = 1699162200000\<rparr>],
      revoked = [], outbox = []\<rparr>"

definition spring_runtime :: runtime where
  "spring_runtime =
     example_runtime\<lparr>new_Date := 1710054300000, Date_now := 1710054300000,
                      LocalTZA := new_york_LocalTZA\<rparr>"

definition spring_world :: world where
  "spring_world =
     \<lparr>tokens = [\<lparr>sk_key = ''key-minute-old'', sk_email = ''alice@example.org'',
                  sk_createdAt = 1710054240000\<rparr>],
      revoked = [], outbox = []\<rparr>"

section \<open>Auxiliary facts\<close>

text \<open>
  The fields of a time value put it together again, so setting the minute field to the
  minute less \<open>n\<close> is the local time less \<open>n\<close> minutes, and the cutoff is that
  local time read back as UTC.
\<close>

lemma time_fields:
  "MakeDate (Day t) (MakeTime (HourFromTime t) (MinFromTime t) (SecFromTime t) (msFromTime t)) = t"
proof -
  have a: "t = (t div 1000) * 1000 + t mod 1000" by simp
  have "t div 60000 = (t div 1000) div 60"
    using zdiv_zmult2_eq [of 60 t 1000] by simp
  then have b: "t div 1000 = (t div 60000) * 60 + (t div 1000) mod 60" by simp
  have "t div 3600000 = (t div 60000) div 60"
    using zdiv_zmult2_eq [of 60 t 60000] by simp
  then have c: "t div 60000 = (t div 3600000) * 60 + (t div 60000) mod 60" by simp
  have "t div 86400000 = (t div 3600000) div 24"
    using zdiv_zmult2_eq [of 24 t 3600000] by simp
  then have d: "t div 3600000 = (t div 86400000) * 24 + (t div 3600000) mod 24" by simp
  show ?thesis
    unfolding MakeDate_def MakeTime_def Day_def HourFromTime_def MinFromTime_def
      SecFromTime_def msFromTime_def
    using a b c d by linarith
qed

lemma set_minutes_fields:
  "MakeDate (Day t) (MakeTime (HourFromTime t) (MinFromTime t - n) (SecFromTime t) (msFromTime t))
     = t - n * 60000"
proof -
  have "MakeDate (Day t) (MakeTime (HourFromTime t) (MinFromTime t - n) (SecFromTime t) (msFromTime t))
        = MakeDate (Day t) (MakeTime (HourFromTime t) (MinFromTime t) (SecFromTime t) (msFromTime t))
          - n * 60000"
    by (simp add: MakeDate_def MakeTime_def algebra_simps)
  then show ?thesis by (simp only: time_fields)
qed

lemma minutes_before_eq: "minutes_before rt t n = UTC rt (LocalTime rt t - n * 60000)"
  by (simp only: minutes_before_def Date_setMinutes_def Date_getMinutes_def Let_def
        set_minutes_fields)

lemma minutes_before_same_offset:
  assumes "same_offset rt t n"
  shows "minutes_before rt t n = t - n * 60000"
proof -
  have "LocalTZA rt (LocalTime rt t - n * 60000) False = LocalTZA rt t True"
    using assms by (simp only: same_offset_def)
  then show ?thesis
    by (simp add: minutes_before_eq UTC_def LocalTime_def)
qed

lemma then_p_throw [simp]: "then_p (of_result (Inl e)) f s = (Inl e, s)"
  by (simp add: then_p_def of_result_def)

lemma then_p_value [simp]: "then_p (of_result (Inr x)) f s = f x s"
  by (simp add: then_p_def of_result_def)

lemma then_p_resolve [simp]: "then_p (resolve_p x) f s = f x s"
  by (simp add: then_p_def resolve_p_def)

lemma requireAuth_cases:
  "requireAuth ctx = (if cc_isSignin ctx = Some True then Inr ()
                      else Inl (AuthenticationError ''sign-in to continue''))"
  by (cases "cc_isSignin ctx") (auto simp: requireAuth_def)

lemma guarded_rejects:
  assumes "touches_ledger_data op" and "cc_isSignin ctx \<noteq> Some True"
  shows "resolvers rt ds op ctx s = (Inl (AuthenticationError ''sign-in to continue''), s)"
proof -
  have r: "requireAuth ctx = Inl (AuthenticationError ''sign-in to continue'')"
    using assms(2) by (simp add: requireAuth_cases)
  show ?thesis
    using assms(1)
    by (cases op)
       (simp_all add: r getReasons_def getTransaction_def getTransactions_def
          getDailyBalance_def Transaction_reason_def createTransaction_def
          updateTransaction_def deleteTransaction_def createReason_def updateReason_def)
qed

lemma exempt_ignores_flag:
  assumes "\<not> touches_ledger_data op"
  shows "resolvers rt ds op (ctx\<lparr>cc_isSignin := flag\<rparr>) s = resolvers rt ds op ctx s"
  using assms by (cases op) (simp_all add: signin_def token_def)

lemma replace_without_occurrence: "\<not> occurs_in pat s \<Longrightarrow> replace pat rep s = s"
  by (induction s) auto

lemma replace_at_prefix: "replace pat rep (pat @ t) = rep @ t"
proof (cases "pat @ t")
  case Nil
  then show ?thesis by simp
next
  case (Cons c cs)
  have "take (length pat) (c # cs) = pat" "drop (length pat) (c # cs) = t"
    using Cons [symmetric] by simp_all
  then show ?thesis unfolding Cons by simp
qed

text \<open>
  The occurrence that is replaced is the first one: no occurrence starts inside
  \<open>pre\<close> when the pattern does not occur in \<open>pre\<close> followed by all but the last
  character of the pattern.
\<close>

lemma replace_first_occurrence:
  assumes "pat \<noteq> []" and "\<not> occurs_in pat (pre @ butlast pat)"
  shows "replace pat rep (pre @ pat @ post) = pre @ rep @ post"
  using assms(2)
proof (induction pre)
  case Nil
  show ?case by (simp add: replace_at_prefix)
next
  case (Cons c cs)
  have len: "length pat \<le> length ((c # cs) @ butlast pat)"
    using assms(1) by (cases pat rule: rev_cases) auto
  have split: "(c # cs) @ pat @ post = ((c # cs) @ butlast pat) @ (last pat # post)"
    using assms(1) by (cases pat rule: rev_cases) auto
  have "take (length pat) (((c # cs) @ butlast pat) @ (last pat # post))
          = take (length pat) ((c # cs) @ butlast pat)"
    using len by (simp only: take_append) simp
  then have "take (length pat) ((c # cs) @ pat @ post) = take (length pat) ((c # cs) @ butlast pat)"
    by (simp only: split)
  moreover from Cons.prems have "take (length pat) ((c # cs) @ butlast pat) \<noteq> pat"
    and "\<not> occurs_in pat (cs @ butlast pat)" by auto
  ultimately show ?case using Cons.IH by simp
qed

lemma context_fn_shape:
  "\<exists>payload s' logged. context_fn rt ds Config authorization s =
      (Inr \<lparr>cc_token = bearer_token authorization, cc_tokenPayload = payload,
            cc_isSignin = None, cc_appConfig = Config\<rparr>, s', logged)"
  by (auto simp: context_fn_def Let_def split: prod.splits sum.splits)

lemma context_try_absent:
  assumes "t = []
           \<or> fst (tokenDs_isRevoke ds t s) = Inr True
           \<or> (\<exists>e. fst (tokenDs_isRevoke ds t s) = Inl e)
           \<or> (\<exists>e. jwt_verify rt t (signin_jwt_secret Config) = Inl e)"
  shows "fst (context_try rt ds Config t s) \<noteq> Inr (Some p)"
  using assms
  by (cases "tokenDs_isRevoke ds t s")
     (auto simp: context_try_def then_p_def resolve_p_def of_result_def
           split: sum.splits if_splits)

lemma token_after_lookup:
  assumes "tokenDs_getRecordByKey ds key s = (Inr found, s')"
  shows "token rt ds key ctx s =
     (case found of
        None \<Rightarrow> (Inl (ApolloError ''Sign in key didn't exist or expired.''), s')
      | Some r \<Rightarrow>
          if sk_createdAt r \<le> minutes_before rt (new_Date rt) (signin_key_available_time (cc_appConfig ctx))
          then (Inl (ApolloError ''Sign in key didn't exist or expired.''), s')
          else (Inr (JStr (jwt_sign rt
                  \<lparr>jp_email = sk_email r,
                   jp_exp = round_seconds (Date_now rt)
                            + signin_token_available_time (cc_appConfig ctx) * 60\<rparr>
                  (signin_jwt_secret (cc_appConfig ctx))
                  (signin_jwt_algorithm (cc_appConfig ctx)))), s'))"
  using assms
  by (simp add: token_def Let_def then_p_def reject_p_def resolve_p_def
           split: option.splits)

text \<open>
  Where no change of the zone's offset comes into the cutoff, \<open>token\<close> rejects exactly
  the unknown keys and the rows created at or before the clock minus the configured
  minutes, and redeems the others.
\<close>

lemma token_at_plain_cutoff:
  assumes "same_offset rt (new_Date rt) (signin_key_available_time (cc_appConfig ctx))"
    and "tokenDs_getRecordByKey ds key s = (Inr found, s')"
  shows "token rt ds key ctx s =
     (case found of
        None \<Rightarrow> (Inl (ApolloError ''Sign in key didn't exist or expired.''), s')
      | Some r \<Rightarrow>
          if sk_createdAt r \<le> new_Date rt - signin_key_available_time (cc_appConfig ctx) * 60000
          then (Inl (ApolloError ''Sign in key didn't exist or expired.''), s')
          else (Inr (JStr (jwt_sign rt
                  \<lparr>jp_email = sk_email r,
                   jp_exp = round_seconds (Date_now rt)
                            + signin_token_available_time (cc_appConfig ctx) * 60\<rparr>
                  (signin_jwt_secret (cc_appConfig ctx))
                  (signin_jwt_algorithm (cc_appConfig ctx)))), s'))"
  by (simp only: token_after_lookup [OF assms(2)] minutes_before_same_offset [OF assms(1)])

lemma token_world: "snd (token rt ds key ctx s) = snd (tokenDs_getRecordByKey ds key s)"
proof (cases "tokenDs_getRecordByKey ds key s")
  case (Pair res s')
  then show ?thesis
    by (cases res)
       (simp_all add: token_def Let_def then_p_def reject_p_def resolve_p_def
          split: option.splits)
qed

lemma round_seconds_mono: "a \<le> b \<Longrightarrow> round_seconds a \<le> round_seconds b"
  unfolding round_seconds_def by (simp add: zdiv_mono1)

lemma round_seconds_next: "round_seconds (a + 1000) = round_seconds a + 1"
  unfolding round_seconds_def by simp

lemma round_seconds_strict:
  assumes "a + 1000 \<le> b"
  shows "round_seconds a < round_seconds b"
proof -
  have "round_seconds a + 1 \<le> round_seconds b"
    using round_seconds_mono [OF assms] by (simp add: round_seconds_next)
  then show ?thesis by simp
qed

lemma round_seconds_near:
  "ms - 500 < 1000 * round_seconds ms" "1000 * round_seconds ms \<le> ms + 500"
  unfolding round_seconds_def by linarith+

lemma latest_None: "latest xs = None \<longleftrightarrow> xs = []"
  by (induction xs) (auto split: option.splits)

lemma signin_invalid:
  "\<not> emailValidator_validate rt email \<Longrightarrow>
     signin rt ds email ctx s = (Inr (JStr ''invalid email address''), s)"
  by (simp add: signin_def resolve_p_def)

lemma signin_not_allowed:
  assumes "emailValidator_validate rt email"
    and "authorized_emails (cc_appConfig ctx) = Some l" and "l \<noteq> []" and "email \<notin> set l"
  shows "signin rt ds email ctx s = (Inr (JStr ''the email address isn't allowed to sign in''), s)"
  using assms by (simp add: signin_def resolve_p_def)

lemma signin_throttled:
  assumes "emailValidator_validate rt email"
    and "\<forall>l. authorized_emails (cc_appConfig ctx) = Some l \<longrightarrow> l = [] \<or> email \<in> set l"
    and "tokenDs_getLatestActiveRecord ds email
           (minutes_before rt (new_Date rt) (signin_key_available_time (cc_appConfig ctx))) s
         = (Inr (Some r), s')"
  shows "signin rt ds email ctx s =
     (Inr (JStr ''an instruction has been sent to the email address, please follow that email to sign in.''), s')"
proof (cases "authorized_emails (cc_appConfig ctx)")
  case None
  with assms(1,3) show ?thesis
    by (simp add: signin_def Let_def then_p_def resolve_p_def)
next
  case (Some l)
  with assms(2) have "l = [] \<or> email \<in> set l" by simp
  with Some assms(1,3) show ?thesis
    by (auto simp: signin_def Let_def then_p_def resolve_p_def)
qed

lemma store_lookup_live:
  assumes "\<exists>k\<in>set (tokens w). sk_email k = email \<and> cutoff \<le> sk_createdAt k"
  shows "\<exists>r. tokenDs_getLatestActiveRecord (store_dataSources now) email cutoff w = (Inr (Some r), w)"
proof -
  from assms have "filter (\<lambda>r. sk_email r = email \<and> cutoff \<le> sk_createdAt r) (tokens w) \<noteq> []"
    by (auto simp: filter_empty_conv)
  then have "latest (filter (\<lambda>r. sk_email r = email \<and> cutoff \<le> sk_createdAt r) (tokens w)) \<noteq> None"
    by (simp add: latest_None)
  then show ?thesis
    by (auto simp: store_dataSources_def TokenDS_getLatestActiveRecord_def)
qed

lemma store_signin_world_live:
  assumes "\<exists>k\<in>set (tokens w). sk_email k = email
              \<and> minutes_before rt (new_Date rt) (signin_key_available_time (cc_appConfig ctx)) \<le> sk_createdAt k"
  shows "snd (signin rt (store_dataSources now) email ctx w) = w"
proof -
  obtain r where look: "tokenDs_getLatestActiveRecord (store_dataSources now) email
      (minutes_before rt (new_Date rt) (signin_key_available_time (cc_appConfig ctx))) w = (Inr (Some r), w)"
    using store_lookup_live [OF assms] by (rule exE)
  show ?thesis
    using look
    by (simp add: signin_def Let_def resolve_p_def then_p_def)
qed

text \<open>
  On the store, \<open>signin\<close> either leaves the key table as it is or, when no key of
  the address is live, appends one row.
\<close>

lemma store_signin_tokens:
  "tokens (snd (signin rt (store_dataSources now) email ctx w)) = tokens w
   \<or> (filter (\<lambda>r. sk_email r = email
                  \<and> minutes_before rt (new_Date rt) (signin_key_available_time (cc_appConfig ctx))
                     \<le> sk_createdAt r) (tokens w) = []
      \<and> tokens (snd (signin rt (store_dataSources now) email ctx w))
          = tokens w @ [\<lparr>sk_key = uuidv4 rt, sk_email = email, sk_createdAt = now\<rparr>])"
proof (cases "latest (filter (\<lambda>r. sk_email r = email
                  \<and> minutes_before rt (new_Date rt) (signin_key_available_time (cc_appConfig ctx))
                     \<le> sk_createdAt r) (tokens w))")
  case None
  then have "filter (\<lambda>r. sk_email r = email
                  \<and> minutes_before rt (new_Date rt) (signin_key_available_time (cc_appConfig ctx))
                     \<le> sk_createdAt r) (tokens w) = []"
    by (simp add: latest_None)
  moreover have "tokens (snd (signin rt (store_dataSources now) email ctx w)) = tokens w
     \<or> tokens (snd (signin rt (store_dataSources now) email ctx w))
          = tokens w @ [\<lparr>sk_key = uuidv4 rt, sk_email = email, sk_createdAt = now\<rparr>]"
    using None
    by (simp add: signin_def Let_def resolve_p_def then_p_def
          promise_all2_def store_dataSources_def TokenDS_getLatestActiveRecord_def
          TokenDS_create_def GmailSmtp_send_def)
  ultimately show ?thesis by simp
next
  case (Some r)
  then have "tokens (snd (signin rt (store_dataSources now) email ctx w)) = tokens w"
    by (simp add: signin_def Let_def resolve_p_def then_p_def
          store_dataSources_def TokenDS_getLatestActiveRecord_def)
  then show ?thesis by simp
qed

lemma store_signin_one_live_key:
  assumes "length (filter (\<lambda>r. sk_email r = e
                  \<and> minutes_before rt (new_Date rt) (signin_key_available_time (cc_appConfig ctx))
                     \<le> sk_createdAt r) (tokens w)) \<le> 1"
  shows "length (filter (\<lambda>r. sk_email r = e
                  \<and> minutes_before rt (new_Date rt) (signin_key_available_time (cc_appConfig ctx))
                     \<le> sk_createdAt r)
            (tokens (snd (signin rt (store_dataSources now) email ctx w)))) \<le> 1"
  using store_signin_tokens [of rt now email ctx w] assms
  by (cases "e = email") auto

section \<open>The example values, field by field\<close>

lemma example_runtime_clock:
  "new_Date example_runtime = 1700000600000" "Date_now example_runtime = 1700000600600"
  by (simp_all add: example_runtime_def)

lemma example_same_offset: "same_offset example_runtime t n"
  by (simp add: same_offset_def example_runtime_def)

lemma example_minutes_before: "minutes_before example_runtime t n = t - n * 60000"
  by (rule minutes_before_same_offset [OF example_same_offset])

lemma example_minutes_before_later:
  "minutes_before (example_runtime\<lparr>new_Date := a, Date_now := b\<rparr>) t n = t - n * 60000"
  by (rule minutes_before_same_offset) (simp add: same_offset_def example_runtime_def)

lemma example_runtime_validate:
  "emailValidator_validate example_runtime s = (CHR ''@'' \<in> set s)"
  by (simp add: example_runtime_def)

lemma example_runtime_verify:
  "jwt_verify example_runtime ''HS256.alice@example.org.s3cret'' ''s3cret''
     = Inr \<lparr>jp_email = ''alice@example.org'', jp_exp = 1700002401\<rparr>"
  by (simp add: example_runtime_def)

lemma example_config_fields:
  "authorized_emails example_config = Some [''alice@example.org'']"
  "signin_key_available_time example_config = 10"
  "signin_token_available_time example_config = 30"
  "signin_jwt_secret example_config = ''s3cret''"
  "signin_jwt_algorithm example_config = ''HS256''"
  by (simp_all add: example_config_def)

lemma example_context_fields:
  "cc_appConfig example_context = example_config"
  "cc_isSignin example_context = None"
  by (simp_all add: example_context_def)

lemma example_bearer:
  "bearer_token (Some ''Bearer HS256.alice@example.org.s3cret'') = ''HS256.alice@example.org.s3cret''"
  by (simp add: bearer_token_def)

lemma example_lookup_old:
  "tokenDs_getRecordByKey (store_dataSources 0) ''key-old'' example_world
     = (Inr (Some \<lparr>sk_key = ''key-old'', sk_email = ''eve@example.org'',
                   sk_createdAt = 1700000000000\<rparr>), example_world)"
  by (simp add: store_dataSources_def TokenDS_getRecordByKey_def example_world_def)

lemma example_lookup_unknown:
  "tokenDs_getRecordByKey (store_dataSources 0) ''key-nobody'' example_world
     = (Inr None, example_world)"
  by (simp add: store_dataSources_def TokenDS_getRecordByKey_def example_world_def)

lemma example_lookup_alice:
  "tokenDs_getRecordByKey (store_dataSources 0) ''key-alice'' example_world
     = (Inr (Some \<lparr>sk_key = ''key-alice'', sk_email = ''alice@example.org'',
                   sk_createdAt = 1700000540000\<rparr>), example_world)"
  by (simp add: store_dataSources_def TokenDS_getRecordByKey_def example_world_def)

lemma example_live_alice:
  "\<exists>k\<in>set (tokens example_world). sk_email k = ''alice@example.org''
      \<and> new_Date example_runtime
           - signin_key_available_time (cc_appConfig example_context) * 60000
         \<le> sk_createdAt k"
  by (simp add: example_world_def example_runtime_clock example_context_fields
        example_config_fields)

lemma example_latest_alice:
  "tokenDs_getLatestActiveRecord (store_dataSources now) ''alice@example.org''
      (new_Date example_runtime
         - signin_key_available_time (cc_appConfig example_context) * 60000) example_world
     = (Inr (Some \<lparr>sk_key = ''key-alice'', sk_email = ''alice@example.org'',
                   sk_createdAt = 1700000540000\<rparr>), example_world)"
  by (simp add: store_dataSources_def TokenDS_getLatestActiveRecord_def example_world_def
        example_runtime_clock example_context_fields example_config_fields)

text \<open>
  With no allow-list configured, \<open>signin\<close> for an address without a key stores a
  key and hands the mail over.
\<close>

lemma example_signin_carol:
  "signin example_runtime (store_dataSources 1700000600000) ''carol@example.org''
     (example_context\<lparr>cc_appConfig := example_config\<lparr>authorized_emails := None\<rparr>\<rparr>)
     example_world
   = (Inr (JStr ''sent''),
      example_world
        \<lparr>tokens := tokens example_world
           @ [\<lparr>sk_key = ''0b6f7a3e-key'', sk_email = ''carol@example.org'',
               sk_createdAt = 1700000600000\<rparr>],
         outbox := [(''carol@example.org'', ''0b6f7a3e-key'')]\<rparr>)"
  by (simp add: signin_def Let_def example_runtime_validate example_config_fields
        example_minutes_before example_runtime_clock store_dataSources_def
        TokenDS_getLatestActiveRecord_def TokenDS_create_def GmailSmtp_send_def
        promise_all2_def then_p_def resolve_p_def example_world_def example_runtime_def)

text \<open>
  The two cutoffs in New York: half an hour after the clocks went back the cutoff for ten
  minutes is 70 minutes before the clock, five minutes after they went forward it is 50
  minutes after the clock.
\<close>

lemma autumn_cutoff:
  "new_Date autumn_runtime = 1699165800000"
  "minutes_before autumn_runtime 1699165800000 10 = 1699161600000"
  by (simp_all add: minutes_before_eq UTC_def LocalTime_def autumn_runtime_def
        new_york_LocalTZA_def)

lemma spring_cutoff:
  "new_Date spring_runtime = 1710054300000"
  "minutes_before spring_runtime 1710054300000 10 = 1710057300000"
  by (simp_all add: minutes_before_eq UTC_def LocalTime_def spring_runtime_def
        new_york_LocalTZA_def)

lemma new_york_runtime_fields:
  "Date_now autumn_runtime = 1699165800000"
  "Date_now spring_runtime = 1710054300000"
  "jwt_sign autumn_runtime = jwt_sign example_runtime"
  "emailValidator_validate spring_runtime = emailValidator_validate example_runtime"
  "uuidv4 spring_runtime = uuidv4 example_runtime"
  by (simp_all add: autumn_runtime_def spring_runtime_def)

lemma autumn_lookup:
  "tokenDs_getRecordByKey (store_dataSources 0) ''key-hour-old'' autumn_world
     = (Inr (Some \<lparr>sk_key = ''key-hour-old'', sk_email = ''alice@example.org'',
                   sk_createdAt = 1699162200000\<rparr>), autumn_world)"
  by (simp add: store_dataSources_def TokenDS_getRecordByKey_def autumn_world_def)

lemma spring_lookup:
  "tokenDs_getRecordByKey (store_dataSources 0) ''key-minute-old'' spring_world
     = (Inr (Some \<lparr>sk_key = ''key-minute-old'', sk_email = ''alice@example.org'',
                   sk_createdAt = 1710054240000\<rparr>), spring_world)"
  by (simp add: store_dataSources_def TokenDS_getRecordByKey_def spring_world_def)

text \<open>
  Five minutes after the clocks went forward the cutoff \<open>signin\<close> computes lies after
  the clock, so alice's key, one minute old, is not found and a second key is stored and
  mailed.
\<close>

lemma spring_signin_sends_again:
  "signin spring_runtime (store_dataSources 1710054300000) ''alice@example.org''
     example_context spring_world
   = (Inr (JStr ''sent''),
      spring_world
        \<lparr>tokens := tokens spring_world
           @ [\<lparr>sk_key = ''0b6f7a3e-key'', sk_email = ''alice@example.org'',
               sk_createdAt = 1710054300000\<rparr>],
         outbox := [(''alice@example.org'', ''0b6f7a3e-key'')]\<rparr>)"
  by (simp add: signin_def Let_def new_york_runtime_fields example_runtime_validate
        example_context_fields example_config_fields spring_cutoff store_dataSources_def
        TokenDS_getLatestActiveRecord_def TokenDS_create_def GmailSmtp_send_def
        promise_all2_def then_p_def resolve_p_def spring_world_def example_runtime_def)

section \<open>The claims\<close>

text \<open>
  C1 (the code departs from it). The claim: the context function returns the raw token,
  the decoded payload, and a signed-in flag that is true exactly when the payload is
  present. Evaluated on a request whose token is not revoked and verifies: the context
  carries the token and the payload, but no signed-in flag, and \<open>requireAuth\<close> rejects
  it.
\<close>

theorem context_fn_sets_no_isSignin:
  "context_fn example_runtime (store_dataSources 0) example_config
     (Some ''Bearer HS256.alice@example.org.s3cret'') (example_world\<lparr>revoked := []\<rparr>)
   = (Inr \<lparr>cc_token = ''HS256.alice@example.org.s3cret'',
           cc_tokenPayload = Some \<lparr>jp_email = ''alice@example.org'', jp_exp = 1700002401\<rparr>,
           cc_isSignin = None, cc_appConfig = example_config\<rparr>,
      example_world\<lparr>revoked := []\<rparr>, [])
   \<and> requireAuth \<lparr>cc_token = ''HS256.alice@example.org.s3cret'',
           cc_tokenPayload = Some \<lparr>jp_email = ''alice@example.org'', jp_exp = 1700002401\<rparr>,
           cc_isSignin = None, cc_appConfig = example_config\<rparr>
       = Inl (AuthenticationError ''sign-in to continue'')"
  by (simp add: context_fn_def example_bearer context_try_def store_dataSources_def
        TokenDS_isRevoke_def then_p_def of_result_def resolve_p_def example_runtime_verify
        example_config_fields requireAuth_def)

text \<open>
  C2. \<open>requireAuth\<close> throws \<open>AuthenticationError\<close> when the context's flag is false
  and returns normally when it is true. Every operation that goes to the reason,
  transaction or daily-spend data (every entry of the resolver map but \<open>signin\<close> and
  \<open>token\<close>) starts with it: on a context that is not signed in the operation rejects
  with the \<open>AuthenticationError\<close> and leaves the world as it was, whatever the data
  sources are; on a signed-in context the call goes through to the data source. The two
  sign-in operations do not look at the flag.
\<close>

theorem requireAuth_guards_ledger_operations:
  "(cc_isSignin ctx = Some False \<longrightarrow>
      requireAuth ctx = Inl (AuthenticationError ''sign-in to continue''))
   \<and> (cc_isSignin ctx = Some True \<longrightarrow> requireAuth ctx = Inr ())
   \<and> (touches_ledger_data op \<and> cc_isSignin ctx \<noteq> Some True \<longrightarrow>
        resolvers rt ds op ctx s = (Inl (AuthenticationError ''sign-in to continue''), s))
   \<and> (cc_isSignin ctx = Some True \<longrightarrow>
        resolvers rt ds Query_getReasons ctx s = reasonDs_getReasons ds s)
   \<and> (\<not> touches_ledger_data op \<longrightarrow>
        resolvers rt ds op (ctx\<lparr>cc_isSignin := flag\<rparr>) s = resolvers rt ds op ctx s)
   \<and> (touches_ledger_data op
        \<longleftrightarrow> (\<forall>email key. op \<noteq> Mutation_signin email \<and> op \<noteq> Mutation_token key))"
proof (intro conjI impI)
  show "touches_ledger_data op
        \<longleftrightarrow> (\<forall>email key. op \<noteq> Mutation_signin email \<and> op \<noteq> Mutation_token key)"
    by (cases op) simp_all
next
  assume "cc_isSignin ctx = Some True"
  then show "resolvers rt ds Query_getReasons ctx s = reasonDs_getReasons ds s"
    by (simp add: getReasons_def requireAuth_cases)
qed (simp_all add: requireAuth_cases guarded_rejects exempt_ignores_flag)

theorem requireAuth_guards_ledger_operations_witness:
  "requireAuth (example_context\<lparr>cc_isSignin := Some False\<rparr>)
     = Inl (AuthenticationError ''sign-in to continue'')
   \<and> requireAuth (example_context\<lparr>cc_isSignin := Some True\<rparr>) = Inr ()
   \<and> resolvers example_runtime (store_dataSources 0)
        (Mutation_deleteTransaction (JObj [(''id'', JNum 7)]))
        (example_context\<lparr>cc_isSignin := Some False\<rparr>) example_world
      = (Inl (AuthenticationError ''sign-in to continue''), example_world)
   \<and> resolvers example_runtime (store_dataSources 0) Query_getReasons
        (example_context\<lparr>cc_isSignin := Some True\<rparr>) example_world
      = (Inr (JArr []), example_world)
   \<and> resolvers example_runtime (store_dataSources 0) (Mutation_token ''key-alice'')
        (example_context\<lparr>cc_isSignin := Some True\<rparr>) example_world
      = resolvers example_runtime (store_dataSources 0) (Mutation_token ''key-alice'')
          example_context example_world"
  using requireAuth_guards_ledger_operations
          [where ctx = "example_context\<lparr>cc_isSignin := Some False\<rparr>"
             and op = "Mutation_deleteTransaction (JObj [(''id'', JNum 7)])"
             and rt = example_runtime and ds = "store_dataSources 0" and s = example_world]
        requireAuth_guards_ledger_operations
          [where ctx = "example_context\<lparr>cc_isSignin := Some True\<rparr>"
             and op = Query_getReasons
             and rt = example_runtime and ds = "store_dataSources 0" and s = example_world]
        requireAuth_guards_ledger_operations
          [where ctx = example_context and op = "Mutation_token ''key-alice''"
             and rt = example_runtime and ds = "store_dataSources 0" and s = example_world
             and flag = "Some True"]
  by (simp add: store_dataSources_def resolve_p_def)

text \<open>
  C3 (the code departs from it). The claim: \<open>token\<close> rejects exactly when the key is
  unknown or its row was created at or before the cutoff, the clock minus the configured
  minutes. Evaluated on a host in New York half an hour after the clocks went back, with
  ten configured minutes and a key created 60 minutes before the clock: the row is older
  than the clock minus ten minutes, but \<open>setMinutes\<close> on the local minute field puts
  the cutoff 70 minutes before the clock, and the key is redeemed.
\<close>

theorem token_redeems_hour_old_key:
  "signin_key_available_time (cc_appConfig example_context) = 10
   \<and> new_Date autumn_runtime - 10 * 60000 = 1699165200000
   \<and> tokenDs_getRecordByKey (store_dataSources 0) ''key-hour-old'' autumn_world
       = (Inr (Some \<lparr>sk_key = ''key-hour-old'', sk_email = ''alice@example.org'',
                     sk_createdAt = 1699162200000\<rparr>), autumn_world)
   \<and> (1699162200000 :: int) \<le> 1699165200000
   \<and> minutes_before autumn_runtime (new_Date autumn_runtime) 10 = 1699161600000
   \<and> token autumn_runtime (store_dataSources 0) ''key-hour-old'' example_context autumn_world
       = (Inr (JStr (jwt_sign example_runtime
                  \<lparr>jp_email = ''alice@example.org'', jp_exp = 1699167600\<rparr> ''s3cret'' ''HS256'')),
          autumn_world)"
  by (simp add: token_after_lookup [OF autumn_lookup] autumn_lookup autumn_cutoff new_york_runtime_fields
        example_context_fields example_config_fields round_seconds_def)

text \<open>
  C4 (the code departs from it). The claim: for every key whose row is within the
  validity window \<open>token\<close> returns the signed token. Evaluated on a host in New York
  five minutes after the clocks went forward, with ten configured minutes and a key
  created one minute before the clock: \<open>setMinutes\<close> on the local minute field puts the
  cutoff 50 minutes after the clock, and the key is refused.
\<close>

theorem token_refuses_minute_old_key:
  "signin_key_available_time (cc_appConfig example_context) = 10
   \<and> new_Date spring_runtime - 10 * 60000 = 1710053700000
   \<and> tokenDs_getRecordByKey (store_dataSources 0) ''key-minute-old'' spring_world
       = (Inr (Some \<lparr>sk_key = ''key-minute-old'', sk_email = ''alice@example.org'',
                     sk_createdAt = 1710054240000\<rparr>), spring_world)
   \<and> (1710053700000 :: int) < 1710054240000
   \<and> minutes_before spring_runtime (new_Date spring_runtime) 10 = 1710057300000
   \<and> token spring_runtime (store_dataSources 0) ''key-minute-old'' example_context spring_world
       = (Inl (ApolloError ''Sign in key didn't exist or expired.''), spring_world)"
  by (simp add: token_after_lookup [OF spring_lookup] spring_lookup spring_cutoff
        example_context_fields example_config_fields)

text \<open>
  What \<open>signin\<close> does at the cutoff it computes, in any zone.
\<close>

lemma signin_throttle_at_cutoff:
  "(emailValidator_validate rt email
      \<and> (\<forall>l. authorized_emails (cc_appConfig ctx) = Some l \<longrightarrow> l = [] \<or> email \<in> set l)
      \<and> tokenDs_getLatestActiveRecord ds email
           (minutes_before rt (new_Date rt) (signin_key_available_time (cc_appConfig ctx))) s
         = (Inr (Some r), s')
    \<longrightarrow> signin rt ds email ctx s =
          (Inr (JStr ''an instruction has been sent to the email address, please follow that email to sign in.''), s'))
   \<and> ((\<exists>k\<in>set (tokens w). sk_email k = email
           \<and> minutes_before rt (new_Date rt) (signin_key_available_time (cc_appConfig ctx)) \<le> sk_createdAt k)
       \<longrightarrow> snd (signin rt (store_dataSources now) email ctx w) = w
          \<and> (emailValidator_validate rt email
               \<and> (\<forall>l. authorized_emails (cc_appConfig ctx) = Some l \<longrightarrow> l = [] \<or> email \<in> set l)
             \<longrightarrow> fst (signin rt (store_dataSources now) email ctx w) =
                   Inr (JStr ''an instruction has been sent to the email address, please follow that email to sign in.'')))
   \<and> (length (filter (\<lambda>k. sk_email k = e
                  \<and> minutes_before rt (new_Date rt) (signin_key_available_time (cc_appConfig ctx))
                     \<le> sk_createdAt k) (tokens w)) \<le> 1
       \<longrightarrow> length (filter (\<lambda>k. sk_email k = e
                  \<and> minutes_before rt (new_Date rt) (signin_key_available_time (cc_appConfig ctx))
                     \<le> sk_createdAt k)
              (tokens (snd (signin rt (store_dataSources now) email ctx w)))) \<le> 1)"
proof (intro conjI impI)
  assume h: "emailValidator_validate rt email
      \<and> (\<forall>l. authorized_emails (cc_appConfig ctx) = Some l \<longrightarrow> l = [] \<or> email \<in> set l)
      \<and> tokenDs_getLatestActiveRecord ds email
           (minutes_before rt (new_Date rt) (signin_key_available_time (cc_appConfig ctx))) s
         = (Inr (Some r), s')"
  show "signin rt ds email ctx s =
          (Inr (JStr ''an instruction has been sent to the email address, please follow that email to sign in.''), s')"
    by (rule signin_throttled [OF conjunct1 [OF h] conjunct1 [OF conjunct2 [OF h]]
                                 conjunct2 [OF conjunct2 [OF h]]])
next
  assume live: "\<exists>k\<in>set (tokens w). sk_email k = email
           \<and> minutes_before rt (new_Date rt) (signin_key_available_time (cc_appConfig ctx)) \<le> sk_createdAt k"
  show "snd (signin rt (store_dataSources now) email ctx w) = w"
    using store_signin_world_live [OF live] .
  assume ok: "emailValidator_validate rt email
               \<and> (\<forall>l. authorized_emails (cc_appConfig ctx) = Some l \<longrightarrow> l = [] \<or> email \<in> set l)"
  obtain r' where look: "tokenDs_getLatestActiveRecord (store_dataSources now) email
      (minutes_before rt (new_Date rt) (signin_key_available_time (cc_appConfig ctx))) w = (Inr (Some r'), w)"
    using store_lookup_live [OF live] by (rule exE)
  show "fst (signin rt (store_dataSources now) email ctx w) =
                   Inr (JStr ''an instruction has been sent to the email address, please follow that email to sign in.'')"
    by (simp only: signin_throttled [OF conjunct1 [OF ok] conjunct2 [OF ok] look] fst_conv)
next
  assume "length (filter (\<lambda>k. sk_email k = e
                  \<and> minutes_before rt (new_Date rt) (signin_key_available_time (cc_appConfig ctx))
                     \<le> sk_createdAt k) (tokens w)) \<le> 1"
  then show "length (filter (\<lambda>k. sk_email k = e
                  \<and> minutes_before rt (new_Date rt) (signin_key_available_time (cc_appConfig ctx))
                     \<le> sk_createdAt k)
              (tokens (snd (signin rt (store_dataSources now) email ctx w)))) \<le> 1"
    by (rule store_signin_one_live_key)
qed


text \<open>
  C5 (amended). Let no change of the zone's offset come into the computation of the
  cutoff, so that the cutoff is the clock minus the configured minutes. For an address
  that passes the validator and the allow-list check: when the lookup of the latest
  active key resolves to a row, \<open>signin\<close> returns the throttled outcome and makes no
  further data-source call (no create, no mail). On the token store of the spec that is
  the case whenever the store holds a key for the address created at or after the cutoff.
  Whether or not the address passes the two checks, \<open>signin\<close> leaves such a world as
  it is. So an address that has at most one key created at or after the cutoff still has
  at most one after \<open>signin\<close>, whatever address \<open>signin\<close> was called for.
\<close>

theorem signin_throttles_live_key:
  assumes "same_offset rt (new_Date rt) (signin_key_available_time (cc_appConfig ctx))"
  shows "(emailValidator_validate rt email
      \<and> (\<forall>l. authorized_emails (cc_appConfig ctx) = Some l \<longrightarrow> l = [] \<or> email \<in> set l)
      \<and> tokenDs_getLatestActiveRecord ds email
           (new_Date rt - signin_key_available_time (cc_appConfig ctx) * 60000) s
         = (Inr (Some r), s')
    \<longrightarrow> signin rt ds email ctx s =
          (Inr (JStr ''an instruction has been sent to the email address, please follow that email to sign in.''), s'))
   \<and> ((\<exists>k\<in>set (tokens w). sk_email k = email
           \<and> new_Date rt - signin_key_available_time (cc_appConfig ctx) * 60000 \<le> sk_createdAt k)
       \<longrightarrow> snd (signin rt (store_dataSources now) email ctx w) = w
          \<and> (emailValidator_validate rt email
               \<and> (\<forall>l. authorized_emails (cc_appConfig ctx) = Some l \<longrightarrow> l = [] \<or> email \<in> set l)
             \<longrightarrow> fst (signin rt (store_dataSources now) email ctx w) =
                   Inr (JStr ''an instruction has been sent to the email address, please follow that email to sign in.'')))
   \<and> (length (filter (\<lambda>k. sk_email k = e
                  \<and> new_Date rt - signin_key_available_time (cc_appConfig ctx) * 60000
                     \<le> sk_createdAt k) (tokens w)) \<le> 1
       \<longrightarrow> length (filter (\<lambda>k. sk_email k = e
                  \<and> new_Date rt - signin_key_available_time (cc_appConfig ctx) * 60000
                     \<le> sk_createdAt k)
              (tokens (snd (signin rt (store_dataSources now) email ctx w)))) \<le> 1)"
proof -
  have cutoff: "minutes_before rt (new_Date rt) (signin_key_available_time (cc_appConfig ctx))
                  = new_Date rt - signin_key_available_time (cc_appConfig ctx) * 60000"
    by (rule minutes_before_same_offset [OF assms])
  show ?thesis
    using signin_throttle_at_cutoff [of rt email ctx ds s r s' w now e]
    by (simp only: cutoff)
qed

text \<open>
  An instance: alice is on the allow-list and has a key one minute old, so \<open>signin\<close>
  for her is throttled. Carol has no key and no allow-list is configured: \<open>signin\<close>
  for her stores the one key and hands the mail over.
\<close>

theorem signin_throttles_live_key_witness:
  "emailValidator_validate example_runtime ''alice@example.org''
   \<and> authorized_emails (cc_appConfig example_context) = Some [''alice@example.org'']
   \<and> (\<exists>k\<in>set (tokens example_world). sk_email k = ''alice@example.org''
         \<and> new_Date example_runtime
              - signin_key_available_time (cc_appConfig example_context) * 60000
            \<le> sk_createdAt k)
   \<and> signin example_runtime (store_dataSources 1700000600000) ''alice@example.org''
        example_context example_world
      = (Inr (JStr ''an instruction has been sent to the email address, please follow that email to sign in.''),
         example_world)
   \<and> length (filter (\<lambda>k. sk_email k = ''carol@example.org''
              \<and> new_Date example_runtime
                   - signin_key_available_time
                       (cc_appConfig (example_context
                          \<lparr>cc_appConfig := example_config\<lparr>authorized_emails := None\<rparr>\<rparr>)) * 60000
                 \<le> sk_createdAt k)
          (tokens (snd (signin example_runtime (store_dataSources 1700000600000)
             ''carol@example.org''
             (example_context\<lparr>cc_appConfig := example_config\<lparr>authorized_emails := None\<rparr>\<rparr>)
             example_world)))) \<le> 1
   \<and> snd (signin example_runtime (store_dataSources 1700000600000) ''carol@example.org''
             (example_context\<lparr>cc_appConfig := example_config\<lparr>authorized_emails := None\<rparr>\<rparr>)
             example_world)
      = example_world
          \<lparr>tokens := tokens example_world
             @ [\<lparr>sk_key = ''0b6f7a3e-key'', sk_email = ''carol@example.org'',
                 sk_createdAt = 1700000600000\<rparr>],
           outbox := [(''carol@example.org'', ''0b6f7a3e-key'')]\<rparr>"
proof -
  have valid: "emailValidator_validate example_runtime ''alice@example.org''"
    by (simp add: example_runtime_validate)
  have listed: "authorized_emails (cc_appConfig example_context) = Some [''alice@example.org'']"
    by (simp add: example_context_fields example_config_fields)
  have allowed: "\<forall>l. authorized_emails (cc_appConfig example_context) = Some l
                   \<longrightarrow> l = [] \<or> ''alice@example.org'' \<in> set l"
    by (simp add: listed)
  note general = signin_throttles_live_key
      [where rt = example_runtime and email = "''alice@example.org''"
         and ctx = example_context and ds = "store_dataSources 1700000600000"
         and s = example_world and s' = example_world and w = example_world
         and now = 1700000600000
         and r = "\<lparr>sk_key = ''key-alice'', sk_email = ''alice@example.org'',
                   sk_createdAt = 1700000540000\<rparr>",
       OF example_same_offset]
  have "signin example_runtime (store_dataSources 1700000600000) ''alice@example.org''
          example_context example_world
        = (Inr (JStr ''an instruction has been sent to the email address, please follow that email to sign in.''),
           example_world)"
    by (rule general [THEN conjunct1, THEN mp])
       (intro conjI valid allowed example_latest_alice)
  moreover have "length (filter (\<lambda>k. sk_email k = ''carol@example.org''
              \<and> new_Date example_runtime
                   - signin_key_available_time
                       (cc_appConfig (example_context
                          \<lparr>cc_appConfig := example_config\<lparr>authorized_emails := None\<rparr>\<rparr>)) * 60000
                 \<le> sk_createdAt k)
          (tokens (snd (signin example_runtime (store_dataSources 1700000600000)
             ''carol@example.org''
             (example_context\<lparr>cc_appConfig := example_config\<lparr>authorized_emails := None\<rparr>\<rparr>)
             example_world)))) \<le> 1"
    by (rule signin_throttles_live_key
                 [OF example_same_offset, THEN conjunct2, THEN conjunct2, THEN mp])
       (simp add: example_world_def)
  moreover have "snd (signin example_runtime (store_dataSources 1700000600000)
             ''carol@example.org''
             (example_context\<lparr>cc_appConfig := example_config\<lparr>authorized_emails := None\<rparr>\<rparr>)
             example_world)
      = example_world
          \<lparr>tokens := tokens example_world
             @ [\<lparr>sk_key = ''0b6f7a3e-key'', sk_email = ''carol@example.org'',
                 sk_createdAt = 1700000600000\<rparr>],
           outbox := [(''carol@example.org'', ''0b6f7a3e-key'')]\<rparr>"
    by (simp only: example_signin_carol snd_conv)
  ultimately show ?thesis
    using valid listed example_live_alice by (intro conjI)
qed

text \<open>
  C5 as stated fails: the store holds a key for eve created two minutes before the clock,
  within the ten-minute window, and \<open>signin\<close> for eve returns the outcome of the
  allow-list check, which comes first.
\<close>

theorem signin_throttle_counterexample:
  "\<lparr>sk_key = ''key-eve'', sk_email = ''eve@example.org'', sk_createdAt = 1700000480000\<rparr>
      \<in> set (tokens example_world)
   \<and> new_Date example_runtime
        - signin_key_available_time (cc_appConfig example_context) * 60000
      \<le> 1700000480000
   \<and> signin example_runtime (store_dataSources 1700000600000) ''eve@example.org''
        example_context example_world
      = (Inr (JStr ''the email address isn't allowed to sign in''), example_world)
   \<and> ''the email address isn't allowed to sign in''
      \<noteq> ''an instruction has been sent to the email address, please follow that email to sign in.''"
  by (simp add: example_world_def example_runtime_clock example_context_fields
        example_config_fields signin_def example_runtime_validate resolve_p_def)

text \<open>
  C6. \<open>token\<close> calls no data source but the lookup of the key: the world it leaves
  is the world the lookup leaves, for every data source, so a redemption does not mark
  or delete the row. With a lookup that only reads, a key whose row passes the expiry
  check of two calls (it was created after the cutoff each of them computes with
  \<open>setMinutes\<close>) is redeemed by both, the second on the world the first left; the
  later call signs a payload whose \<open>exp\<close> is computed from its own clock, which is
  no earlier than the first one's, and later when the two calls are a second or more
  apart.
\<close>

theorem token_writes_nothing_and_repeats:
  "snd (token rt ds key ctx s) = snd (tokenDs_getRecordByKey ds key s)
   \<and> (tokenDs_getRecordByKey ds key s = (Inr (Some r), s)
      \<and> minutes_before rt (new_Date rt) (signin_key_available_time (cc_appConfig ctx)) < sk_createdAt r
      \<and> minutes_before rt' (new_Date rt') (signin_key_available_time (cc_appConfig ctx)) < sk_createdAt r
      \<longrightarrow> token rt ds key ctx s =
            (Inr (JStr (jwt_sign rt
               \<lparr>jp_email = sk_email r,
                jp_exp = round_seconds (Date_now rt)
                         + signin_token_available_time (cc_appConfig ctx) * 60\<rparr>
               (signin_jwt_secret (cc_appConfig ctx))
               (signin_jwt_algorithm (cc_appConfig ctx)))), s)
          \<and> token rt' ds key ctx (snd (token rt ds key ctx s)) =
            (Inr (JStr (jwt_sign rt'
               \<lparr>jp_email = sk_email r,
                jp_exp = round_seconds (Date_now rt')
                         + signin_token_available_time (cc_appConfig ctx) * 60\<rparr>
               (signin_jwt_secret (cc_appConfig ctx))
               (signin_jwt_algorithm (cc_appConfig ctx)))), s)
          \<and> (Date_now rt \<le> Date_now rt' \<longrightarrow>
               round_seconds (Date_now rt) + signin_token_available_time (cc_appConfig ctx) * 60
               \<le> round_seconds (Date_now rt') + signin_token_available_time (cc_appConfig ctx) * 60)
          \<and> (Date_now rt + 1000 \<le> Date_now rt' \<longrightarrow>
               round_seconds (Date_now rt) + signin_token_available_time (cc_appConfig ctx) * 60
               < round_seconds (Date_now rt') + signin_token_available_time (cc_appConfig ctx) * 60))"
proof (intro conjI impI)
  show "snd (token rt ds key ctx s) = snd (tokenDs_getRecordByKey ds key s)"
    by (rule token_world)
next
  assume h: "tokenDs_getRecordByKey ds key s = (Inr (Some r), s)
      \<and> minutes_before rt (new_Date rt) (signin_key_available_time (cc_appConfig ctx)) < sk_createdAt r
      \<and> minutes_before rt' (new_Date rt') (signin_key_available_time (cc_appConfig ctx)) < sk_createdAt r"
  then have look: "tokenDs_getRecordByKey ds key s = (Inr (Some r), s)" by simp
  show first: "token rt ds key ctx s =
            (Inr (JStr (jwt_sign rt
               \<lparr>jp_email = sk_email r,
                jp_exp = round_seconds (Date_now rt)
                         + signin_token_available_time (cc_appConfig ctx) * 60\<rparr>
               (signin_jwt_secret (cc_appConfig ctx))
               (signin_jwt_algorithm (cc_appConfig ctx)))), s)"
    using h by (simp add: token_after_lookup [OF look])
  show "token rt' ds key ctx (snd (token rt ds key ctx s)) =
            (Inr (JStr (jwt_sign rt'
               \<lparr>jp_email = sk_email r,
                jp_exp = round_seconds (Date_now rt')
                         + signin_token_available_time (cc_appConfig ctx) * 60\<rparr>
               (signin_jwt_secret (cc_appConfig ctx))
               (signin_jwt_algorithm (cc_appConfig ctx)))), s)"
    using h by (simp add: first token_after_lookup [OF look])
  {
    assume "Date_now rt \<le> Date_now rt'"
    then show "round_seconds (Date_now rt) + signin_token_available_time (cc_appConfig ctx) * 60
               \<le> round_seconds (Date_now rt') + signin_token_available_time (cc_appConfig ctx) * 60"
      by (simp add: round_seconds_mono)
  }
  {
    assume "Date_now rt + 1000 \<le> Date_now rt'"
    then have "round_seconds (Date_now rt) < round_seconds (Date_now rt')"
      by (rule round_seconds_strict)
    then show "round_seconds (Date_now rt) + signin_token_available_time (cc_appConfig ctx) * 60
               < round_seconds (Date_now rt') + signin_token_available_time (cc_appConfig ctx) * 60"
      by simp
  }
qed

text \<open>The second redemption of the witness is one minute after the first.\<close>

theorem token_writes_nothing_and_repeats_witness:
  "token example_runtime (store_dataSources 0) ''key-alice'' example_context example_world
     = (Inr (JStr (jwt_sign example_runtime
                \<lparr>jp_email = ''alice@example.org'', jp_exp = 1700002401\<rparr> ''s3cret'' ''HS256'')),
        example_world)
   \<and> token (example_runtime\<lparr>new_Date := 1700000660000, Date_now := 1700000660600\<rparr>)
        (store_dataSources 0) ''key-alice'' example_context
        (snd (token example_runtime (store_dataSources 0) ''key-alice'' example_context
                example_world))
     = (Inr (JStr (jwt_sign example_runtime
                \<lparr>jp_email = ''alice@example.org'', jp_exp = 1700002461\<rparr> ''s3cret'' ''HS256'')),
        example_world)"
proof -
  have pre: "tokenDs_getRecordByKey (store_dataSources 0) ''key-alice'' example_world
        = (Inr (Some \<lparr>sk_key = ''key-alice'', sk_email = ''alice@example.org'',
                      sk_createdAt = 1700000540000\<rparr>), example_world)
      \<and> minutes_before example_runtime (new_Date example_runtime)
            (signin_key_available_time (cc_appConfig example_context))
        < sk_createdAt \<lparr>sk_key = ''key-alice'', sk_email = ''alice@example.org'',
                         sk_createdAt = 1700000540000\<rparr>
      \<and> minutes_before
            (example_runtime\<lparr>new_Date := 1700000660000, Date_now := 1700000660600\<rparr>)
            (new_Date (example_runtime\<lparr>new_Date := 1700000660000, Date_now := 1700000660600\<rparr>))
            (signin_key_available_time (cc_appConfig example_context))
        < sk_createdAt \<lparr>sk_key = ''key-alice'', sk_email = ''alice@example.org'',
                         sk_createdAt = 1700000540000\<rparr>"
    by (simp add: example_lookup_alice example_runtime_clock example_context_fields
          example_config_fields example_minutes_before example_minutes_before_later)
  note both = token_writes_nothing_and_repeats
          [where rt = example_runtime
             and rt' = "example_runtime\<lparr>new_Date := 1700000660000, Date_now := 1700000660600\<rparr>"
             and ds = "store_dataSources 0" and key = "''key-alice''"
             and ctx = example_context and s = example_world
             and r = "\<lparr>sk_key = ''key-alice'', sk_email = ''alice@example.org'',
                       sk_createdAt = 1700000540000\<rparr>", THEN conjunct2, THEN mp, OF pre]
  from both [THEN conjunct1] both [THEN conjunct2, THEN conjunct1] show ?thesis
    by (simp add: example_runtime_clock example_context_fields example_config_fields
          round_seconds_def)
qed

text \<open>
  C7. The context function returns a context for every header, never an error: what the
  revocation check or the verification throws is caught and logged. When the extracted
  token is empty, or the store reports it revoked (whatever the verification would say),
  or the revocation check or the verification throws, the context has no payload and
  \<open>requireAuth\<close> rejects it: the request goes on as not signed in.
\<close>

theorem context_fn_swallows_failures:
  "\<exists>ctx s' logged.
     context_fn rt ds Config authorization s = (Inr ctx, s', logged)
     \<and> (bearer_token authorization = []
          \<or> fst (tokenDs_isRevoke ds (bearer_token authorization) s) = Inr True
          \<or> (\<exists>e. fst (tokenDs_isRevoke ds (bearer_token authorization) s) = Inl e)
          \<or> (\<exists>e. jwt_verify rt (bearer_token authorization) (signin_jwt_secret Config) = Inl e)
        \<longrightarrow> cc_tokenPayload ctx = None
            \<and> requireAuth ctx = Inl (AuthenticationError ''sign-in to continue''))"
proof -
  obtain res s' where run: "context_try rt ds Config (bearer_token authorization) s = (res, s')"
    by (cases "context_try rt ds Config (bearer_token authorization) s")
  show ?thesis
  proof (cases res)
    case (Inl e)
    with run show ?thesis
      by (simp add: context_fn_def requireAuth_def)
  next
    case (Inr payload)
    have "payload = None"
      if "bearer_token authorization = []
          \<or> fst (tokenDs_isRevoke ds (bearer_token authorization) s) = Inr True
          \<or> (\<exists>e. fst (tokenDs_isRevoke ds (bearer_token authorization) s) = Inl e)
          \<or> (\<exists>e. jwt_verify rt (bearer_token authorization) (signin_jwt_secret Config) = Inl e)"
    proof (cases payload)
      case None
      then show ?thesis .
    next
      case (Some p)
      with context_try_absent [OF that, of p] run Inr show ?thesis by simp
    qed
    with run Inr show ?thesis
      by (simp add: context_fn_def requireAuth_def)
  qed
qed

text \<open>
  The witness: a token that verifies but is on the revocation list, and a request with no
  header.
\<close>

theorem context_fn_swallows_failures_witness:
  "jwt_verify example_runtime (bearer_token (Some ''Bearer HS256.alice@example.org.s3cret''))
       (signin_jwt_secret example_config)
     = Inr \<lparr>jp_email = ''alice@example.org'', jp_exp = 1700002401\<rparr>
   \<and> fst (tokenDs_isRevoke (store_dataSources 0)
            (bearer_token (Some ''Bearer HS256.alice@example.org.s3cret'')) example_world)
     = Inr True
   \<and> context_fn example_runtime (store_dataSources 0) example_config
        (Some ''Bearer HS256.alice@example.org.s3cret'') example_world
     = (Inr \<lparr>cc_token = ''HS256.alice@example.org.s3cret'', cc_tokenPayload = None,
             cc_isSignin = None, cc_appConfig = example_config\<rparr>, example_world, [])
   \<and> bearer_token None = []
   \<and> context_fn example_runtime (store_dataSources 0) example_config None example_world
     = (Inr \<lparr>cc_token = [], cc_tokenPayload = None,
             cc_isSignin = None, cc_appConfig = example_config\<rparr>, example_world, [])"
  using context_fn_swallows_failures
          [of example_runtime "store_dataSources 0" example_config
              "Some ''Bearer HS256.alice@example.org.s3cret''" example_world]
        context_fn_swallows_failures
          [of example_runtime "store_dataSources 0" example_config None example_world]
  by (simp add: context_fn_def context_try_def example_bearer bearer_token_def Let_def
        store_dataSources_def TokenDS_isRevoke_def example_world_def then_p_def resolve_p_def
        example_runtime_verify example_config_fields)

text \<open>
  C8 (amended). With a non-empty allow-list that does not hold the address, \<open>signin\<close>
  for an address that passes the validator returns the string for a disallowed address.
  Whether or not the address passes the validator, \<open>signin\<close> then returns normally
  and leaves the world as it is, whatever the data sources are.
\<close>

theorem signin_refuses_unlisted_email:
  assumes "authorized_emails (cc_appConfig ctx) = Some l" and "l \<noteq> []" and "email \<notin> set l"
  shows "(emailValidator_validate rt email \<longrightarrow>
            signin rt ds email ctx s =
              (Inr (JStr ''the email address isn't allowed to sign in''), s))
         \<and> snd (signin rt ds email ctx s) = s
         \<and> (\<exists>v. fst (signin rt ds email ctx s) = Inr v)"
proof (cases "emailValidator_validate rt email")
  case True
  then show ?thesis by (simp add: signin_not_allowed [OF True assms])
next
  case False
  then show ?thesis by (simp add: signin_invalid)
qed

theorem signin_refuses_unlisted_email_witness:
  "authorized_emails (cc_appConfig example_context) = Some [''alice@example.org'']
   \<and> ''eve@example.org'' \<notin> set [''alice@example.org'']
   \<and> emailValidator_validate example_runtime ''eve@example.org''
   \<and> signin example_runtime (store_dataSources 1700000600000) ''eve@example.org''
        example_context example_world
      = (Inr (JStr ''the email address isn't allowed to sign in''), example_world)"
proof -
  have listed: "authorized_emails (cc_appConfig example_context) = Some [''alice@example.org'']"
    by (simp add: example_context_fields example_config_fields)
  have valid: "emailValidator_validate example_runtime ''eve@example.org''"
    by (simp add: example_runtime_validate)
  have "signin example_runtime (store_dataSources 1700000600000) ''eve@example.org''
          example_context example_world
        = (Inr (JStr ''the email address isn't allowed to sign in''), example_world)"
    by (rule signin_refuses_unlisted_email
               [OF listed, of "''eve@example.org''" example_runtime
                   "store_dataSources 1700000600000" example_world,
                THEN conjunct1, THEN mp])
       (simp_all add: valid)
  with listed valid show ?thesis by simp
qed

text \<open>
  C8 as stated fails: a string the validator rejects and the allow-list does not hold
  gets the outcome of the validator, which comes first.
\<close>

theorem signin_unlisted_counterexample:
  "authorized_emails (cc_appConfig example_context) = Some [''alice@example.org'']
   \<and> ''not-an-address'' \<notin> set [''alice@example.org'']
   \<and> signin example_runtime (store_dataSources 1700000600000) ''not-an-address''
        example_context example_world
      = (Inr (JStr ''invalid email address''), example_world)
   \<and> ''invalid email address'' \<noteq> ''the email address isn't allowed to sign in''"
  by (simp add: example_context_fields example_config_fields signin_def
        example_runtime_validate resolve_p_def)

text \<open>
  What the first statement of the context function does with a header: it removes the
  first occurrence of \<open>''Bearer ''\<close>, wherever that stands.
\<close>

lemma bearer_token_first_occurrence:
  "(\<exists>ctx s' logged. context_fn rt ds Config authorization s = (Inr ctx, s', logged)
        \<and> cc_token ctx = bearer_token authorization)
   \<and> bearer_token None = []
   \<and> bearer_token (Some (''Bearer '' @ t)) = t
   \<and> (\<not> occurs_in ''Bearer '' (pre @ ''Bearer'')
        \<longrightarrow> bearer_token (Some (pre @ ''Bearer '' @ post)) = pre @ post)
   \<and> (\<not> occurs_in ''Bearer '' h \<longrightarrow> bearer_token (Some h) = h)"
proof (intro conjI impI)
  show "\<exists>ctx s' logged. context_fn rt ds Config authorization s = (Inr ctx, s', logged)
          \<and> cc_token ctx = bearer_token authorization"
    using context_fn_shape [of rt ds Config authorization s] by force
  show "bearer_token None = []"
    by (simp add: bearer_token_def)
  show "bearer_token (Some (''Bearer '' @ t)) = t"
    using replace_at_prefix [of "''Bearer ''" "[]" t] by (simp add: bearer_token_def)
  show "bearer_token (Some (pre @ ''Bearer '' @ post)) = pre @ post"
    if "\<not> occurs_in ''Bearer '' (pre @ ''Bearer'')"
    using replace_first_occurrence [of "''Bearer ''" pre "[]" post] that
    by (simp add: bearer_token_def)
  show "bearer_token (Some h) = h" if "\<not> occurs_in ''Bearer '' h"
    using replace_without_occurrence [OF that] by (simp add: bearer_token_def)
qed


text \<open>
  C9 (the code departs from it). The claim: the token is the header value without its
  \<open>''Bearer ''\<close> prefix when the value starts with it, and the entire value otherwise.
  Evaluated on a header that starts with the prefix, the code does that; evaluated on a
  header that does not start with it but contains it further in, the code does not take
  the entire value: \<open>replace\<close> removes the occurrence inside.
\<close>

theorem bearer_token_cuts_inside_header:
  "bearer_token (Some ''Bearer abc.def.ghi'') = ''abc.def.ghi''
   \<and> take 7 ''xBearer y'' \<noteq> ''Bearer ''
   \<and> bearer_token (Some ''xBearer y'') = ''xy''
   \<and> bearer_token (Some ''xBearer y'') \<noteq> ''xBearer y''"
  by (simp add: bearer_token_def)

text \<open>
  C10. In \<open>getTransactions\<close> and \<open>countTransactions\<close> an amount bound of 0 and a
  reason id of 0 are read as absent: the query handed to the database client is the one
  built without that argument, and the where clause has no condition for it.
\<close>

theorem zero_bounds_are_absent_filters:
  "TransactionDS_getTransactions findMany fromDate toDate (Some 0) toAmount reason offset limit
     = TransactionDS_getTransactions findMany fromDate toDate None toAmount reason offset limit
   \<and> TransactionDS_getTransactions findMany fromDate toDate fromAmount (Some 0) reason offset limit
     = TransactionDS_getTransactions findMany fromDate toDate fromAmount None reason offset limit
   \<and> TransactionDS_getTransactions findMany fromDate toDate fromAmount toAmount (Some 0) offset limit
     = TransactionDS_getTransactions findMany fromDate toDate fromAmount toAmount None offset limit
   \<and> TransactionDS_countTransactions count_rows fromDate toDate (Some 0) toAmount reason
     = TransactionDS_countTransactions count_rows fromDate toDate None toAmount reason
   \<and> TransactionDS_countTransactions count_rows fromDate toDate fromAmount (Some 0) reason
     = TransactionDS_countTransactions count_rows fromDate toDate fromAmount None reason
   \<and> TransactionDS_countTransactions count_rows fromDate toDate fromAmount toAmount (Some 0)
     = TransactionDS_countTransactions count_rows fromDate toDate fromAmount toAmount None
   \<and> gte (or_empty (where_amount (build_where fromDate toDate (Some 0) toAmount reason))) = None
   \<and> lte (or_empty (where_amount (build_where fromDate toDate fromAmount (Some 0) reason))) = None
   \<and> where_reasonId (build_where fromDate toDate fromAmount toAmount (Some 0)) = None"
proof -
  have w: "build_where fromDate toDate (Some 0) toAmount reason
             = build_where fromDate toDate None toAmount reason"
          "build_where fromDate toDate fromAmount (Some 0) reason
             = build_where fromDate toDate fromAmount None reason"
          "build_where fromDate toDate fromAmount toAmount (Some 0)
             = build_where fromDate toDate fromAmount toAmount None"
    by (simp_all add: build_where_def)
  have a: "gte (or_empty (where_amount (build_where fromDate toDate None toAmount reason))) = None"
    by (simp add: build_where_def Let_def empty_where_def or_empty_def split: option.splits)
  have b: "lte (or_empty (where_amount (build_where fromDate toDate fromAmount None reason))) = None"
    by (simp add: build_where_def Let_def empty_where_def or_empty_def split: option.splits)
  have c: "where_reasonId (build_where fromDate toDate fromAmount toAmount None) = None"
    by (simp add: build_where_def Let_def empty_where_def or_empty_def split: option.splits)
  show ?thesis
    by (intro conjI)
       (simp_all only: TransactionDS_getTransactions_def TransactionDS_countTransactions_def w a b c)
qed

text \<open>
  An instance: lower amount bound 0, upper amount bound 5, reason id 0. The query keeps
  the upper bound only.
\<close>

theorem zero_bounds_are_absent_filters_witness:
  "TransactionDS_getTransactions (\<lambda>q. q) None None (Some 0) (Some 5) (Some 0) 0 20
     = \<lparr>q_skip = 0, q_take = 20,
        q_where = \<lparr>where_date = None,
                    where_amount = Some \<lparr>gte = None, lte = Some 5\<rparr>,
                    where_reasonId = None\<rparr>,
        q_orderBy = [(''date'', Desc)],
        q_select = [''id'', ''amount'', ''date'', ''description'', ''updatedAt'', ''reasonId'']\<rparr>
   \<and> TransactionDS_getTransactions (\<lambda>q. q) None None (Some 0) (Some 5) (Some 0) 0 20
     = TransactionDS_getTransactions (\<lambda>q. q) None None None (Some 5) None 0 20
   \<and> TransactionDS_countTransactions (\<lambda>w. w) None None (Some 0) (Some 5) (Some 0)
     = TransactionDS_countTransactions (\<lambda>w. w) None None None (Some 5) None"
  using zero_bounds_are_absent_filters
          [where findMany = "\<lambda>q. q" and count_rows = "\<lambda>w. w" and fromDate = None
             and toDate = None and fromAmount = None and toAmount = "Some 5"
             and reason = "Some 0" and offset = 0 and limit = 20]
        zero_bounds_are_absent_filters
          [where findMany = "\<lambda>q. q" and count_rows = "\<lambda>w. w" and fromDate = None
             and toDate = None and fromAmount = None and toAmount = "Some 5"
             and reason = None and offset = 0 and limit = 20]
  by (simp add: TransactionDS_getTransactions_def TransactionDS_countTransactions_def
        build_where_def empty_where_def or_empty_def)

end
